theory Spec2Isabelle
  imports Complex_Main "HOL-Library.Sublist"
begin

section \<open>Data model (home_info.py, lines 8-28)\<close>

text \<open>
  The three dataclasses of the program. A Python \<open>float\<close> field holds the exact decimal
  value of the text it was converted from (a rational number): every property below
  is about which fields are present and about values that a double represents exactly.
  A Python \<open>int\<close> is an unbounded integer.
\<close>

record School =
  name :: string
  distance :: rat
  rating :: "rat option"
  type :: string

record PropertyDetails =
  square_feet :: "rat option"
  bedrooms :: "int option"
  bathrooms :: "rat option"
  estimated_value :: "rat option"
  year_built :: "int option"

record HomeInformation =
  address :: string
  overview :: string
  details :: PropertyDetails
  nearby_schools :: "School list"

section \<open>Exceptions\<close>

text \<open>
  A raised exception is a value: its class and its message. \<open>Exception\<close> stands for
  every class that is neither an \<open>AttributeError\<close>, a \<open>ValueError\<close> nor an
  \<open>IndexError\<close> (the failure of a request to the text-generation service is one),
  and for the plain \<open>Exception\<close> that \<open>get_home_information\<close> raises itself.
\<close>

datatype py_exception =
  AttributeError string
| ValueError string
| IndexError string
| Exception string

fun str_of :: "py_exception \<Rightarrow> string" where
  "str_of (AttributeError m) = m"
| "str_of (ValueError m) = m"
| "str_of (IndexError m) = m"
| "str_of (Exception m) = m"

definition bind_exn :: "py_exception + 'a \<Rightarrow> ('a \<Rightarrow> py_exception + 'b) \<Rightarrow> py_exception + 'b" where
  "bind_exn r f = (case r of Inl e \<Rightarrow> Inl e | Inr v \<Rightarrow> f v)"

section \<open>Characters and strings\<close>

text \<open>
  A character is a code point below 256 (ASCII and Latin-1), and a text is a list of
  them; a text with other code points is outside this model. The classes are those
  of Python's \<open>str\<close> methods and of the \<open>re\<close> module on these code points: \<open>\s\<close> and
  \<open>strip()\<close> take the six usual white-space characters, the four separators 0x1C to
  0x1F, the next-line character 0x85 and the no-break space 0xA0; \<open>\d\<close> takes the ten
  digits; \<open>\w\<close> takes the letters and digits of both blocks and the underscore;
  \<open>lower()\<close> maps \<open>A\<close> to \<open>Z\<close> and the capital letters 0xC0 to 0xDE (0xD7 apart) to
  the letter 0x20 above. With \<open>re.IGNORECASE\<close> a letter of a pattern matches the
  characters that have its lower-case form.
\<close>

definition is_space :: "char \<Rightarrow> bool" where
  "is_space c = (c \<in> set [CHR 0x09, CHR 0x0A, CHR 0x0B, CHR 0x0C, CHR 0x0D,
                          CHR 0x1C, CHR 0x1D, CHR 0x1E, CHR 0x1F, CHR 0x20,
                          CHR 0x85, CHR 0xA0])"

definition is_digit :: "char \<Rightarrow> bool" where
  "is_digit c = (c \<in> set ''0123456789'')"

definition is_lower_az :: "char \<Rightarrow> bool" where
  "is_lower_az c = (c \<in> set ''abcdefghijklmnopqrstuvwxyz'')"

definition is_upper_az :: "char \<Rightarrow> bool" where
  "is_upper_az c = (c \<in> set ''ABCDEFGHIJKLMNOPQRSTUVWXYZ'')"

definition is_alpha_az :: "char \<Rightarrow> bool" where
  "is_alpha_az c = (is_upper_az c \<or> is_lower_az c)"

text \<open>The letters and the digit-like characters of the Latin-1 block.\<close>

definition latin1_word :: string where
  "latin1_word =
    [CHR 0xAA, CHR 0xB2, CHR 0xB3, CHR 0xB5, CHR 0xB9, CHR 0xBA, CHR 0xBC, CHR 0xBD,
     CHR 0xBE, CHR 0xC0, CHR 0xC1, CHR 0xC2, CHR 0xC3, CHR 0xC4, CHR 0xC5, CHR 0xC6,
     CHR 0xC7, CHR 0xC8, CHR 0xC9, CHR 0xCA, CHR 0xCB, CHR 0xCC, CHR 0xCD, CHR 0xCE,
     CHR 0xCF, CHR 0xD0, CHR 0xD1, CHR 0xD2, CHR 0xD3, CHR 0xD4, CHR 0xD5, CHR 0xD6,
     CHR 0xD8, CHR 0xD9, CHR 0xDA, CHR 0xDB, CHR 0xDC, CHR 0xDD, CHR 0xDE, CHR 0xDF,
     CHR 0xE0, CHR 0xE1, CHR 0xE2, CHR 0xE3, CHR 0xE4, CHR 0xE5, CHR 0xE6, CHR 0xE7,
     CHR 0xE8, CHR 0xE9, CHR 0xEA, CHR 0xEB, CHR 0xEC, CHR 0xED, CHR 0xEE, CHR 0xEF,
     CHR 0xF0, CHR 0xF1, CHR 0xF2, CHR 0xF3, CHR 0xF4, CHR 0xF5, CHR 0xF6, CHR 0xF8,
     CHR 0xF9, CHR 0xFA, CHR 0xFB, CHR 0xFC, CHR 0xFD, CHR 0xFE, CHR 0xFF]"

definition is_word :: "char \<Rightarrow> bool" where
  "is_word c = (is_alpha_az c \<or> is_digit c \<or> c = CHR ''_'' \<or> c \<in> set latin1_word)"

definition not_newline :: "char \<Rightarrow> bool" where
  "not_newline c = (c \<noteq> CHR 0x0A)"

definition is_chr :: "char \<Rightarrow> char \<Rightarrow> bool" where
  "is_chr p c = (c = p)"

definition upper_chars :: string where
  "upper_chars = ''ABCDEFGHIJKLMNOPQRSTUVWXYZ'' @
    [CHR 0xC0, CHR 0xC1, CHR 0xC2, CHR 0xC3, CHR 0xC4, CHR 0xC5, CHR 0xC6, CHR 0xC7,
     CHR 0xC8, CHR 0xC9, CHR 0xCA, CHR 0xCB, CHR 0xCC, CHR 0xCD, CHR 0xCE, CHR 0xCF,
     CHR 0xD0, CHR 0xD1, CHR 0xD2, CHR 0xD3, CHR 0xD4, CHR 0xD5, CHR 0xD6, CHR 0xD8,
     CHR 0xD9, CHR 0xDA, CHR 0xDB, CHR 0xDC, CHR 0xDD, CHR 0xDE]"

definition lower_chars :: string where
  "lower_chars = ''abcdefghijklmnopqrstuvwxyz'' @
    [CHR 0xE0, CHR 0xE1, CHR 0xE2, CHR 0xE3, CHR 0xE4, CHR 0xE5, CHR 0xE6, CHR 0xE7,
     CHR 0xE8, CHR 0xE9, CHR 0xEA, CHR 0xEB, CHR 0xEC, CHR 0xED, CHR 0xEE, CHR 0xEF,
     CHR 0xF0, CHR 0xF1, CHR 0xF2, CHR 0xF3, CHR 0xF4, CHR 0xF5, CHR 0xF6, CHR 0xF8,
     CHR 0xF9, CHR 0xFA, CHR 0xFB, CHR 0xFC, CHR 0xFD, CHR 0xFE]"

definition lower_chr :: "char \<Rightarrow> char" where
  "lower_chr c = (case map_of (zip upper_chars lower_chars) c of None \<Rightarrow> c | Some l \<Rightarrow> l)"

definition is_chr_ic :: "char \<Rightarrow> char \<Rightarrow> bool" where
  "is_chr_ic p c = (lower_chr c = lower_chr p)"

definition py_lower :: "string \<Rightarrow> string" where
  "py_lower s = map lower_chr s"

definition py_strip :: "string \<Rightarrow> string" where
  "py_strip s = rev (dropWhile is_space (rev (dropWhile is_space s)))"

text \<open>\<open>s.replace(',', '')\<close>\<close>

definition remove_commas :: "string \<Rightarrow> string" where
  "remove_commas s = filter (\<lambda>c. c \<noteq> CHR '','') s"

text \<open>
  \<open>s.split('\n\n')\<close>: the pieces between the occurrences of two line feeds, found from
  left to right without overlap. \<open>cur\<close> is the piece being read.
\<close>

fun split_nn :: "string \<Rightarrow> string \<Rightarrow> string list" where
  "split_nn cur [] = [cur]"
| "split_nn cur [c] = [cur @ [c]]"
| "split_nn cur (a # b # cs) =
     (if a = CHR 0x0A \<and> b = CHR 0x0A then cur # split_nn [] cs
      else split_nn (cur @ [a]) (b # cs))"

subsection \<open>Conversions\<close>

definition digit_val :: "char \<Rightarrow> nat" where
  "digit_val c =
     (case map_of [(CHR ''0'', 0), (CHR ''1'', 1), (CHR ''2'', 2), (CHR ''3'', 3),
                   (CHR ''4'', 4), (CHR ''5'', 5), (CHR ''6'', 6), (CHR ''7'', 7),
                   (CHR ''8'', 8), (CHR ''9'', 9)] c of
        None \<Rightarrow> 0
      | Some d \<Rightarrow> d)"

definition digits_val :: "string \<Rightarrow> nat" where
  "digits_val s = foldl (\<lambda>acc c. 10 * acc + digit_val c) 0 s"

text \<open>
  \<open>int(s)\<close> and \<open>float(s)\<close> on the texts the patterns of this program capture: a run of
  digits, and for \<open>float\<close> a decimal point with digits on at least one side. Any other
  text is a \<open>ValueError\<close> here (the signs, exponents and blanks that Python also reads
  never reach the conversions). \<open>int\<close> is taken without the interpreter's optional limit
  on the number of digits, and \<open>float\<close> without the rounding to a double.
\<close>

definition py_int :: "string \<Rightarrow> py_exception + int" where
  "py_int s =
     (if s \<noteq> [] \<and> list_all is_digit s then Inr (int (digits_val s))
      else Inl (ValueError (''invalid literal for int() with base 10: '' @ s)))"

definition py_float :: "string \<Rightarrow> py_exception + rat" where
  "py_float s =
     (let ip = takeWhile is_digit s; r = dropWhile is_digit s in
      case r of
        [] \<Rightarrow> (if ip = [] then Inl (ValueError (''could not convert string to float: '' @ s))
               else Inr (of_nat (digits_val ip)))
      | c # fp \<Rightarrow>
          (if c = CHR ''.'' \<and> list_all is_digit fp \<and> \<not> (ip = [] \<and> fp = [])
           then Inr (of_nat (digits_val ip) + of_nat (digits_val fp) / 10 ^ length fp)
           else Inl (ValueError (''could not convert string to float: '' @ s))))"

section \<open>Regular expressions (the fragment of \<open>re\<close> the program uses)\<close>

text \<open>
  An atom is a literal, a greedy repetition \<open>c{lo,hi}\<close> of a character class (\<open>c*\<close> is
  \<open>Rep c 0 None\<close>, \<open>c+\<close> is \<open>Rep c 1 None\<close>, \<open>c?\<close> is \<open>Rep c 0 (Some 1)\<close>, \<open>c{n}\<close> is
  \<open>Rep c n (Some n)\<close>), an alternation of literals, \<open>\b\<close>, \<open>^\<close> or \<open>$\<close>. A pattern is a
  sequence of items: an atom, an optional non-capturing group \<open>(?:...)?\<close> or the
  capturing group \<open>(...)\<close>. A position is the text already passed and the text ahead.
\<close>

datatype atom =
  Lit string
| Rep "char \<Rightarrow> bool" nat "nat option"
| Alt "string list"
| WordB
| Bol
| Eol

datatype item =
  Atom atom
| Opt "atom list"
| Group "atom list"

type_synonym pos = "string \<times> string"
type_synonym mstate = "pos \<times> string option"

fun starts_with :: "bool \<Rightarrow> string \<Rightarrow> string \<Rightarrow> bool" where
  "starts_with ic [] s = True"
| "starts_with ic (p # ps) [] = False"
| "starts_with ic (p # ps) (c # cs) =
     ((if ic then lower_chr c = lower_chr p else c = p) \<and> starts_with ic ps cs)"

definition step_lit :: "bool \<Rightarrow> string \<Rightarrow> pos \<Rightarrow> pos list" where
  "step_lit ic p ps =
     (if starts_with ic p (snd ps)
      then [(fst ps @ take (length p) (snd ps), drop (length p) (snd ps))]
      else [])"

text \<open>\<open>\b\<close>: exactly one of the characters before and after the position is a word character.\<close>

definition word_before :: "string \<Rightarrow> bool" where
  "word_before pre = (case rev pre of [] \<Rightarrow> False | c # _ \<Rightarrow> is_word c)"

definition word_after :: "string \<Rightarrow> bool" where
  "word_after rest = (case rest of [] \<Rightarrow> False | c # _ \<Rightarrow> is_word c)"

text \<open>
  The positions after an atom, in the order the backtracking matcher tries them: a
  greedy repetition takes the longest run first and gives characters back one by one;
  an alternation tries its branches from left to right. \<open>$\<close> holds at the end of the
  text and before a line feed that ends it.
\<close>

fun step_atom :: "bool \<Rightarrow> atom \<Rightarrow> pos \<Rightarrow> pos list" where
  "step_atom ic (Lit p) ps = step_lit ic p ps"
| "step_atom ic (Rep cls lo hi) ps =
     (let n = length (takeWhile cls (snd ps));
          m = (case hi of None \<Rightarrow> n | Some h \<Rightarrow> min n h)
      in map (\<lambda>k. (fst ps @ take k (snd ps), drop k (snd ps))) (rev [lo..<Suc m]))"
| "step_atom ic (Alt alts) ps = concat (map (\<lambda>p. step_lit ic p ps) alts)"
| "step_atom ic WordB ps =
     (if word_before (fst ps) = word_after (snd ps) then [] else [ps])"
| "step_atom ic Bol ps = (if fst ps = [] then [ps] else [])"
| "step_atom ic Eol ps = (if snd ps = [] \<or> snd ps = [CHR 0x0A] then [ps] else [])"

fun run_atoms :: "bool \<Rightarrow> atom list \<Rightarrow> pos \<Rightarrow> pos list" where
  "run_atoms ic [] ps = [ps]"
| "run_atoms ic (a # as) ps = concat (map (run_atoms ic as) (step_atom ic a ps))"

fun step_item :: "bool \<Rightarrow> item \<Rightarrow> mstate \<Rightarrow> mstate list" where
  "step_item ic (Atom a) st = map (\<lambda>p. (p, snd st)) (step_atom ic a (fst st))"
| "step_item ic (Opt as) st = map (\<lambda>p. (p, snd st)) (run_atoms ic as (fst st)) @ [st]"
| "step_item ic (Group as) st =
     map (\<lambda>p. (p, Some (drop (length (fst (fst st))) (fst p)))) (run_atoms ic as (fst st))"

fun run :: "bool \<Rightarrow> item list \<Rightarrow> mstate \<Rightarrow> mstate list" where
  "run ic [] st = [st]"
| "run ic (i # is) st = concat (map (run ic is) (step_item ic i st))"

definition first_match :: "mstate list \<Rightarrow> mstate option" where
  "first_match sts = (case sts of [] \<Rightarrow> None | st # _ \<Rightarrow> Some st)"

text \<open>\<open>re.match\<close>: the first way to match at the start of the text, if there is one.\<close>

definition re_match :: "bool \<Rightarrow> item list \<Rightarrow> string \<Rightarrow> mstate option" where
  "re_match ic pat s = first_match (run ic pat (([], s), None))"

text \<open>\<open>re.search\<close>: the first way to match at the leftmost position that has one.\<close>

fun search_from :: "bool \<Rightarrow> item list \<Rightarrow> string \<Rightarrow> string \<Rightarrow> mstate option" where
  "search_from ic pat pre [] = first_match (run ic pat ((pre, []), None))"
| "search_from ic pat pre (c # cs) =
     (case first_match (run ic pat ((pre, c # cs), None)) of
        Some st \<Rightarrow> Some st
      | None \<Rightarrow> search_from ic pat (pre @ [c]) cs)"

definition re_search :: "bool \<Rightarrow> item list \<Rightarrow> string \<Rightarrow> mstate option" where
  "re_search ic pat s = search_from ic pat [] s"

text \<open>
  \<open>m.group(1)\<close>: an \<open>AttributeError\<close> when \<open>m\<close> is \<open>None\<close>, an \<open>IndexError\<close> when the
  pattern has no group, the captured text otherwise (a group of this fragment is never
  optional, so a match of a pattern with a group has set it).
\<close>

definition group1 :: "mstate option \<Rightarrow> py_exception + string" where
  "group1 m =
     (case m of
        None \<Rightarrow> Inl (AttributeError ''NoneType object has no attribute group'')
      | Some st \<Rightarrow>
          (case snd st of
             None \<Rightarrow> Inl (IndexError ''no such group'')
           | Some g \<Rightarrow> Inr g))"

section \<open>AddressValidator (home_info.py, lines 30-57)\<close>

text \<open>
  \<open>r'\d+.*\b[A-Za-z]+\b.*(?:street|st|avenue|ave|road|rd|boulevard|blvd|lane|ln|drive|dr)\b.*'\<close>
\<close>

definition street_types :: "string list" where
  "street_types = [''street'', ''st'', ''avenue'', ''ave'', ''road'', ''rd'',
                   ''boulevard'', ''blvd'', ''lane'', ''ln'', ''drive'', ''dr'']"

definition street_pattern :: "item list" where
  "street_pattern =
     [Atom (Rep is_digit 1 None), Atom (Rep not_newline 0 None),
      Atom WordB, Atom (Rep is_alpha_az 1 None), Atom WordB,
      Atom (Rep not_newline 0 None), Atom (Alt street_types), Atom WordB,
      Atom (Rep not_newline 0 None)]"

definition validate_street :: "string \<Rightarrow> bool" where
  "validate_street street =
     (if street = [] \<or> length (py_strip street) < 5 \<or> length street > 100 then False
      else re_match False street_pattern (py_lower street) \<noteq> None)"

text \<open>\<open>r'^\d{5}(?:-\d{4})?$'\<close>\<close>

definition zipcode_pattern :: "item list" where
  "zipcode_pattern =
     [Atom Bol, Atom (Rep is_digit 5 (Some 5)),
      Opt [Lit ''-'', Rep is_digit 4 (Some 4)], Atom Eol]"

definition validate_zipcode :: "string \<Rightarrow> bool" where
  "validate_zipcode zipcode = (re_match False zipcode_pattern zipcode \<noteq> None)"

section \<open>HomeInfoRetriever (home_info.py, lines 59-175)\<close>

text \<open>
  The client of the text-generation service: \<open>client model system user\<close> is what
  \<open>self.client.chat.completions.create(...)\<close> followed by
  \<open>response.choices[0].message.content\<close> gives for the two messages, the text of the
  answer or the exception raised on the way.
\<close>

type_synonym client = "string \<Rightarrow> string \<Rightarrow> string \<Rightarrow> py_exception + string"

definition gpt_model :: string where
  "gpt_model = ''gpt-3.5-turbo-0125''"

subsection \<open>\<open>_get_property_overview\<close> (lines 85-96)\<close>

definition overview_prompt :: "string \<Rightarrow> string" where
  "overview_prompt addr =
     ''Provide a brief overview of the property at '' @ addr @
     ''. Include notable features and characteristics.''"

definition get_property_overview :: "client \<Rightarrow> string \<Rightarrow> py_exception + string" where
  "get_property_overview cl addr =
     cl gpt_model ''You are a knowledgeable real estate expert.'' (overview_prompt addr)"

subsection \<open>\<open>_get_property_details\<close> (lines 98-135)\<close>

definition details_prompt :: "string \<Rightarrow> string" where
  "details_prompt addr =
     ''Provide detailed information about the property at '' @ addr @
     '' in the following format:\<newline>'' @
     ''Square Feet: [number]\<newline>Bedrooms: [number]\<newline>Bathrooms: [number]\<newline>'' @
     ''Estimated Value: [number in USD]\<newline>Year Built: [year]''"

text \<open>\<open>r'Square\s*Feet:?\s*(\d[\d,]*)'\<close>\<close>

definition digit_or_comma :: "char \<Rightarrow> bool" where
  "digit_or_comma c = (is_digit c \<or> c = CHR '','')"

definition square_feet_pattern :: "item list" where
  "square_feet_pattern =
     [Atom (Lit ''Square''), Atom (Rep is_space 0 None), Atom (Lit ''Feet''),
      Atom (Rep (is_chr CHR '':'') 0 (Some 1)), Atom (Rep is_space 0 None),
      Group [Rep is_digit 1 (Some 1), Rep digit_or_comma 0 None]]"

text \<open>\<open>r'Bedrooms?:?\s*(\d+)'\<close>\<close>

definition bedrooms_pattern :: "item list" where
  "bedrooms_pattern =
     [Atom (Lit ''Bedroom''), Atom (Rep (is_chr_ic CHR ''s'') 0 (Some 1)),
      Atom (Rep (is_chr CHR '':'') 0 (Some 1)), Atom (Rep is_space 0 None),
      Group [Rep is_digit 1 None]]"

text \<open>\<open>r'Bathrooms?:?\s*(\d+\.?\d*)'\<close>\<close>

definition decimal_group :: "atom list" where
  "decimal_group =
     [Rep is_digit 1 None, Rep (is_chr CHR ''.'') 0 (Some 1), Rep is_digit 0 None]"

definition bathrooms_pattern :: "item list" where
  "bathrooms_pattern =
     [Atom (Lit ''Bathroom''), Atom (Rep (is_chr_ic CHR ''s'') 0 (Some 1)),
      Atom (Rep (is_chr CHR '':'') 0 (Some 1)), Atom (Rep is_space 0 None),
      Group decimal_group]"

text \<open>\<open>r'Estimated\s*Value:?\s*\$?\s*(\d[\d,]*)'\<close>\<close>

definition estimated_value_pattern :: "item list" where
  "estimated_value_pattern =
     [Atom (Lit ''Estimated''), Atom (Rep is_space 0 None), Atom (Lit ''Value''),
      Atom (Rep (is_chr CHR '':'') 0 (Some 1)), Atom (Rep is_space 0 None),
      Atom (Rep (is_chr CHR ''$'') 0 (Some 1)), Atom (Rep is_space 0 None),
      Group [Rep is_digit 1 (Some 1), Rep digit_or_comma 0 None]]"

text \<open>\<open>r'Year\s*Built:?\s*(\d{4})'\<close>\<close>

definition year_built_pattern :: "item list" where
  "year_built_pattern =
     [Atom (Lit ''Year''), Atom (Rep is_space 0 None), Atom (Lit ''Built''),
      Atom (Rep (is_chr CHR '':'') 0 (Some 1)), Atom (Rep is_space 0 None),
      Group [Rep is_digit 4 (Some 4)]]"

text \<open>
  Lines 115 to 127, the five extractions in the order of the source; the first one
  that raises ends the block. All searches are made with \<open>re.IGNORECASE\<close>.
\<close>

definition parse_details :: "string \<Rightarrow> py_exception + PropertyDetails" where
  "parse_details details_text =
     bind_exn (group1 (re_search True square_feet_pattern details_text)) (\<lambda>g1.
     bind_exn (py_float (remove_commas g1)) (\<lambda>sf.
     bind_exn (group1 (re_search True bedrooms_pattern details_text)) (\<lambda>g2.
     bind_exn (py_int g2) (\<lambda>bd.
     bind_exn (group1 (re_search True bathrooms_pattern details_text)) (\<lambda>g3.
     bind_exn (py_float g3) (\<lambda>ba.
     bind_exn (group1 (re_search True estimated_value_pattern details_text)) (\<lambda>g4.
     bind_exn (py_float (remove_commas g4)) (\<lambda>ev.
     bind_exn (group1 (re_search True year_built_pattern details_text)) (\<lambda>g5.
     bind_exn (py_int g5) (\<lambda>yb.
     Inr \<lparr>square_feet = Some sf, bedrooms = Some bd, bathrooms = Some ba,
          estimated_value = Some ev, year_built = Some yb\<rparr>))))))))))"

definition absent_details :: PropertyDetails where
  "absent_details =
     \<lparr>square_feet = None, bedrooms = None, bathrooms = None,
      estimated_value = None, year_built = None\<rparr>"

text \<open>\<open>except (AttributeError, ValueError)\<close>\<close>

fun parse_failure :: "py_exception \<Rightarrow> bool" where
  "parse_failure (AttributeError m) = True"
| "parse_failure (ValueError m) = True"
| "parse_failure (IndexError m) = False"
| "parse_failure (Exception m) = False"

text \<open>The \<open>try\<close> block of lines 100 to 127: the request, then the extraction.\<close>

definition details_block :: "client \<Rightarrow> string \<Rightarrow> py_exception + PropertyDetails" where
  "details_block cl addr =
     bind_exn
       (cl gpt_model
          ''You are a real estate database. Respond with only the requested format.''
          (details_prompt addr))
       parse_details"

definition get_property_details :: "client \<Rightarrow> string \<Rightarrow> py_exception + PropertyDetails" where
  "get_property_details cl addr =
     (case details_block cl addr of
        Inr d \<Rightarrow> Inr d
      | Inl e \<Rightarrow> (if parse_failure e then Inr absent_details else Inl e))"

subsection \<open>\<open>_get_nearby_schools\<close> (lines 137-175)\<close>

definition schools_prompt :: "string \<Rightarrow> string" where
  "schools_prompt addr =
     ''List 3 nearby schools for '' @ addr @ ''. For each school, provide:\<newline>'' @
     ''Name: [school name]\<newline>Distance: [number] miles\<newline>Rating: [number]/10\<newline>'' @
     ''Type: [elementary school/middle school/high school]''"

text \<open>\<open>r'Name:\s*([^\n]+)'\<close>, \<open>r'Distance:\s*(\d+\.?\d*)'\<close>, \<open>r'Rating:\s*(\d+\.?\d*)'\<close>,
  \<open>r'Type:\s*(elementary school|middle school|high school)'\<close>\<close>

definition name_pattern :: "item list" where
  "name_pattern =
     [Atom (Lit ''Name:''), Atom (Rep is_space 0 None), Group [Rep not_newline 1 None]]"

definition distance_pattern :: "item list" where
  "distance_pattern =
     [Atom (Lit ''Distance:''), Atom (Rep is_space 0 None), Group decimal_group]"

definition rating_pattern :: "item list" where
  "rating_pattern =
     [Atom (Lit ''Rating:''), Atom (Rep is_space 0 None), Group decimal_group]"

definition school_types :: "string list" where
  "school_types = [''elementary school'', ''middle school'', ''high school'']"

definition type_pattern :: "item list" where
  "type_pattern =
     [Atom (Lit ''Type:''), Atom (Rep is_space 0 None), Group [Alt school_types]]"

text \<open>
  \<open>[entry.strip() for entry in school_text.split('\n\n') if entry.strip()]\<close>
\<close>

definition school_entries :: "string \<Rightarrow> string list" where
  "school_entries school_text =
     map py_strip (filter (\<lambda>entry. py_strip entry \<noteq> []) (split_nn [] school_text))"

text \<open>
  The \<open>try\<close> block of the loop body (lines 158 to 169): the Schools to append for one
  entry, none or one.
\<close>

definition entry_block :: "string \<Rightarrow> py_exception + School list" where
  "entry_block entry =
     (let name_match = re_search True name_pattern entry;
          distance_match = re_search True distance_pattern entry;
          rating_match = re_search True rating_pattern entry;
          type_match = re_search True type_pattern entry
      in if name_match \<noteq> None \<and> distance_match \<noteq> None \<and> rating_match \<noteq> None
            \<and> type_match \<noteq> None
         then
           bind_exn (group1 name_match) (\<lambda>n.
           bind_exn (group1 distance_match) (\<lambda>dg.
           bind_exn (py_float dg) (\<lambda>d.
           bind_exn (group1 rating_match) (\<lambda>rg.
           bind_exn (py_float rg) (\<lambda>r.
           bind_exn (group1 type_match) (\<lambda>t.
           Inr [\<lparr>name = py_strip n, distance = d, rating = Some r,
                 type = py_lower t\<rparr>]))))))
         else Inr [])"

text \<open>
  The loop of lines 156 to 171 over the entries still to read, \<open>schools\<close> the list
  built so far. A parse failure in the body is caught and the loop goes on; any other
  exception leaves the loop.
\<close>

fun schools_loop :: "string list \<Rightarrow> School list \<Rightarrow> py_exception + School list" where
  "schools_loop [] schools = Inr schools"
| "schools_loop (entry # entries) schools =
     (case entry_block entry of
        Inr new \<Rightarrow> schools_loop entries (schools @ new)
      | Inl e \<Rightarrow> (if parse_failure e then schools_loop entries schools else Inl e))"

text \<open>Lines 151 to 173: what the \<open>try\<close> block does with the text of the answer.\<close>

definition parse_schools :: "string \<Rightarrow> py_exception + School list" where
  "parse_schools school_text = schools_loop (school_entries school_text) []"

definition schools_block :: "client \<Rightarrow> string \<Rightarrow> py_exception + School list" where
  "schools_block cl addr =
     bind_exn
       (cl gpt_model
          ''You are a school information database. List exactly 3 schools in the exact format specified.''
          (schools_prompt addr))
       parse_schools"

text \<open>\<open>except Exception: return []\<close>\<close>

definition get_nearby_schools :: "client \<Rightarrow> string \<Rightarrow> School list" where
  "get_nearby_schools cl addr =
     (case schools_block cl addr of Inr schools \<Rightarrow> schools | Inl e \<Rightarrow> [])"

subsection \<open>\<open>get_home_information\<close> (lines 69-83)\<close>

definition wrapped :: "py_exception \<Rightarrow> py_exception" where
  "wrapped e = Exception (''Error retrieving home information: '' @ str_of e)"

definition get_home_information :: "client \<Rightarrow> string \<Rightarrow> py_exception + HomeInformation" where
  "get_home_information cl addr =
     (case get_property_overview cl addr of
        Inl e \<Rightarrow> Inl (wrapped e)
      | Inr ov \<Rightarrow>
          (case get_property_details cl addr of
             Inl e \<Rightarrow> Inl (wrapped e)
           | Inr d \<Rightarrow>
               Inr \<lparr>address = addr, overview = ov, details = d,
                    nearby_schools = get_nearby_schools cl addr\<rparr>))"

section \<open>Predicates of the statements\<close>


text \<open>An entry lacks a field when one of the four searches of the loop body finds nothing.\<close>

definition lacks_field :: "string \<Rightarrow> bool" where
  "lacks_field entry =
     (re_search True name_pattern entry = None \<or> re_search True distance_pattern entry = None
      \<or> re_search True rating_pattern entry = None \<or> re_search True type_pattern entry = None)"

text \<open>
  What \<open>street_pattern\<close> asks of the lower-cased text, written out: digits \<open>ds\<close>; then
  \<open>a\<close> without a line feed; then a word \<open>w\<close> of letters that starts and ends at a word
  boundary; then \<open>b\<close> without a line feed; then a street type \<open>t\<close> that ends at a word
  boundary; \<open>r\<close> is the rest of the text.
\<close>

definition street_shape :: "string \<Rightarrow> bool" where
  "street_shape l =
     (\<exists>ds a w b t r. l = ds @ a @ w @ b @ t @ r
        \<and> ds \<noteq> [] \<and> list_all is_digit ds
        \<and> list_all not_newline a \<and> \<not> word_before (ds @ a)
        \<and> w \<noteq> [] \<and> list_all is_alpha_az w
        \<and> list_all not_newline b \<and> \<not> word_after (b @ t @ r)
        \<and> t \<in> set street_types \<and> \<not> word_after r)"

text \<open>
  The same shape with the street type standing as a whole word, which is more than the
  pattern asks; and the parts alone, in their order, wherever the line feeds are, which
  is less.
\<close>

definition street_shape_whole :: "string \<Rightarrow> bool" where
  "street_shape_whole l =
     (\<exists>ds a w b t r. l = ds @ a @ w @ b @ t @ r
        \<and> ds \<noteq> [] \<and> list_all is_digit ds
        \<and> list_all not_newline a \<and> \<not> word_before (ds @ a)
        \<and> w \<noteq> [] \<and> list_all is_alpha_az w
        \<and> list_all not_newline b \<and> \<not> word_after (b @ t @ r)
        \<and> \<not> word_before (ds @ a @ w @ b)
        \<and> t \<in> set street_types \<and> \<not> word_after r)"

definition street_parts :: "string \<Rightarrow> bool" where
  "street_parts l =
     (\<exists>ds a w b t r. l = ds @ a @ w @ b @ t @ r
        \<and> ds \<noteq> [] \<and> list_all is_digit ds
        \<and> \<not> word_before (ds @ a)
        \<and> w \<noteq> [] \<and> list_all is_alpha_az w
        \<and> \<not> word_after (b @ t @ r)
        \<and> t \<in> set street_types \<and> \<not> word_after r)"

text \<open>
  A details text in the format the prompt asks for (lines 100 to 106): the five labels
  in order, one per line, each followed by a colon, a blank and its value, with or
  without a dollar sign before the estimated value.
\<close>

definition details_text ::
  "string \<Rightarrow> string \<Rightarrow> string \<Rightarrow> bool \<Rightarrow> string \<Rightarrow> string \<Rightarrow> string" where
  "details_text sf bd ba dollar ev yb =
     ''Square Feet: '' @ sf @ ''\<newline>Bedrooms: '' @ bd @ ''\<newline>Bathrooms: '' @ ba @
     ''\<newline>Estimated Value: '' @ (if dollar then ''$'' else []) @ ev @
     ''\<newline>Year Built: '' @ yb"

text \<open>
  A number written with digits and commas that starts with a digit and has at most
  fifteen digits, so that its value is a double without rounding; and its value.
\<close>

definition grouped_number :: "string \<Rightarrow> bool" where
  "grouped_number s =
     (s \<noteq> [] \<and> is_digit (hd s) \<and> list_all digit_or_comma s \<and> length (filter is_digit s) \<le> 15)"

definition number_value :: "string \<Rightarrow> nat" where
  "number_value s = digits_val (filter is_digit s)"

text \<open>A number written with at least one and at most \<open>n\<close> digits and nothing else.\<close>

definition plain_number :: "nat \<Rightarrow> string \<Rightarrow> bool" where
  "plain_number n s = (s \<noteq> [] \<and> list_all is_digit s \<and> length s \<le> n)"

text \<open>
  The rule as the specification words it: the text starts with a digit and, further
  on, a street type stands as a whole word, anything being allowed in between and
  after. \<open>token_as_word pre rest\<close> looks for the street type in \<open>rest\<close>, the text \<open>pre\<close>
  being already passed.
\<close>

fun token_as_word :: "string \<Rightarrow> string \<Rightarrow> bool" where
  "token_as_word pre [] = False"
| "token_as_word pre (c # cs) =
     ((\<not> word_before pre
       \<and> list_ex (\<lambda>t. starts_with False t (c # cs) \<and> \<not> word_after (drop (length t) (c # cs)))
            street_types)
      \<or> token_as_word (pre @ [c]) cs)"

definition specified_validate_street :: "string \<Rightarrow> bool" where
  "specified_validate_street s =
     (5 \<le> length (py_strip s) \<and> length s \<le> 100
      \<and> (case py_lower s of [] \<Rightarrow> False | d # rest \<Rightarrow> is_digit d \<and> token_as_word [d] rest))"

section \<open>Properties of the matcher and of the conversions\<close>

lemma first_match_in: "first_match l = Some x \<Longrightarrow> x \<in> set l"
  by (cases l) (auto simp: first_match_def)

lemma first_match_None: "first_match l = None \<longleftrightarrow> l = []"
  by (cases l) (auto simp: first_match_def)

lemma concat_map_concat:
  "concat (map f (concat xss)) = concat (map (\<lambda>xs. concat (map f xs)) xss)"
  by (induction xss) simp_all

lemma run_append: "run ic (xs @ ys) st = concat (map (run ic ys) (run ic xs st))"
proof (induction xs arbitrary: st)
  case Nil
  then show ?case by simp
next
  case (Cons x xs)
  have "run ic (xs @ ys) = (\<lambda>s. concat (map (run ic ys) (run ic xs s)))"
    using Cons.IH by (intro ext)
  then show ?case by (simp add: concat_map_concat comp_def)
qed

lemma run_group_cap:
  assumes "st' \<in> set (run ic (pat @ [Group g]) st)"
  shows "snd st' \<noteq> None"
  using assms by (auto simp: run_append)

lemma search_from_in_run:
  "search_from ic pat pre s = Some st \<Longrightarrow>
   \<exists>pre' s'. pre' @ s' = pre @ s \<and> st \<in> set (run ic pat ((pre', s'), None))"
proof (induction s arbitrary: pre)
  case Nil
  then show ?case by (auto dest: first_match_in)
next
  case (Cons c cs)
  show ?case
  proof (cases "first_match (run ic pat ((pre, c # cs), None))")
    case None
    with Cons.prems have "search_from ic pat (pre @ [c]) cs = Some st" by simp
    from Cons.IH[OF this] show ?thesis by auto
  next
    case (Some a)
    with Cons.prems have "a = st" by simp
    with Some show ?thesis by (blast dest: first_match_in)
  qed
qed

lemma search_group_cap:
  assumes "re_search ic (pat @ [Group g]) s = Some st"
  shows "\<exists>cap. snd st = Some cap"
proof -
  from assms obtain pre' s' where "st \<in> set (run ic (pat @ [Group g]) ((pre', s'), None))"
    unfolding re_search_def by (blast dest: search_from_in_run)
  then have "snd st \<noteq> None" by (rule run_group_cap)
  then show ?thesis by auto
qed

lemma group1_search_error:
  assumes "group1 (re_search ic (pat @ [Group g]) s) = Inl e"
  shows "parse_failure e"
proof (cases "re_search ic (pat @ [Group g]) s")
  case None
  with assms show ?thesis by (auto simp: group1_def)
next
  case (Some st)
  then obtain cap where "snd st = Some cap" by (blast dest: search_group_cap)
  with Some assms show ?thesis by (simp add: group1_def)
qed

lemma py_float_error: "py_float s = Inl e \<Longrightarrow> parse_failure e"
  by (auto simp: py_float_def Let_def split: list.splits if_splits)

lemma py_int_error: "py_int s = Inl e \<Longrightarrow> parse_failure e"
  by (auto simp: py_int_def split: if_splits)

lemma bind_exn_Inl: "bind_exn r f = Inl e \<longleftrightarrow> r = Inl e \<or> (\<exists>v. r = Inr v \<and> f v = Inl e)"
  by (cases r) (auto simp: bind_exn_def)


lemma pattern_shapes:
  "square_feet_pattern = butlast square_feet_pattern @ [Group [Rep is_digit 1 (Some 1), Rep digit_or_comma 0 None]]"
  "bedrooms_pattern = butlast bedrooms_pattern @ [Group [Rep is_digit 1 None]]"
  "bathrooms_pattern = butlast bathrooms_pattern @ [Group decimal_group]"
  "estimated_value_pattern = butlast estimated_value_pattern @ [Group [Rep is_digit 1 (Some 1), Rep digit_or_comma 0 None]]"
  "year_built_pattern = butlast year_built_pattern @ [Group [Rep is_digit 4 (Some 4)]]"
  by (simp_all add: square_feet_pattern_def bedrooms_pattern_def bathrooms_pattern_def
      estimated_value_pattern_def year_built_pattern_def)

lemma details_group1_error:
  "group1 (re_search True square_feet_pattern text) = Inl e \<Longrightarrow> parse_failure e"
  "group1 (re_search True bedrooms_pattern text) = Inl e \<Longrightarrow> parse_failure e"
  "group1 (re_search True bathrooms_pattern text) = Inl e \<Longrightarrow> parse_failure e"
  "group1 (re_search True estimated_value_pattern text) = Inl e \<Longrightarrow> parse_failure e"
  "group1 (re_search True year_built_pattern text) = Inl e \<Longrightarrow> parse_failure e"
  by (metis group1_search_error pattern_shapes(1), metis group1_search_error pattern_shapes(2),
      metis group1_search_error pattern_shapes(3), metis group1_search_error pattern_shapes(4),
      metis group1_search_error pattern_shapes(5))

lemma parse_details_error:
  assumes "parse_details text = Inl e"
  shows "parse_failure e"
  using assms unfolding parse_details_def bind_exn_Inl
  by (elim disjE exE conjE) (auto dest: details_group1_error py_float_error py_int_error)

lemma step_lit_consumed:
  "ps' \<in> set (step_lit ic p ps) \<Longrightarrow> \<exists>w. fst ps' = fst ps @ w \<and> snd ps = w @ snd ps'"
  by (auto simp: step_lit_def split: if_splits intro: exI[of _ "take (length p) (snd ps)"])

lemma step_atom_consumed:
  "ps' \<in> set (step_atom ic a ps) \<Longrightarrow> \<exists>w. fst ps' = fst ps @ w \<and> snd ps = w @ snd ps'"
proof (cases a)
  case (Lit p)
  then show "ps' \<in> set (step_atom ic a ps) \<Longrightarrow> ?thesis" by (auto dest: step_lit_consumed)
next
  case (Rep cls lo hi)
  then show "ps' \<in> set (step_atom ic a ps) \<Longrightarrow> ?thesis"
    by (auto simp: Let_def intro: exI[of _ "take k (snd ps)" for k])
next
  case (Alt alts)
  then show "ps' \<in> set (step_atom ic a ps) \<Longrightarrow> ?thesis" by (auto dest: step_lit_consumed)
qed (auto split: if_splits)

lemma run_atoms_consumed:
  "ps' \<in> set (run_atoms ic as ps) \<Longrightarrow> \<exists>w. fst ps' = fst ps @ w \<and> snd ps = w @ snd ps'"
proof (induction as arbitrary: ps)
  case Nil
  then show ?case by simp
next
  case (Cons a as)
  from Cons.prems obtain ps1 where 1: "ps1 \<in> set (step_atom ic a ps)"
    and 2: "ps' \<in> set (run_atoms ic as ps1)" by auto
  from step_atom_consumed[OF 1] obtain w1 where "fst ps1 = fst ps @ w1" "snd ps = w1 @ snd ps1"
    by blast
  moreover from Cons.IH[OF 2] obtain w2 where "fst ps' = fst ps1 @ w2" "snd ps1 = w2 @ snd ps'"
    by blast
  ultimately have "fst ps' = fst ps @ (w1 @ w2) \<and> snd ps = (w1 @ w2) @ snd ps'" by simp
  then show ?case by blast
qed

lemma step_item_consumed:
  "st' \<in> set (step_item ic i st) \<Longrightarrow>
   \<exists>w. fst (fst st') = fst (fst st) @ w \<and> snd (fst st) = w @ snd (fst st')"
  by (cases i) (auto dest: step_atom_consumed run_atoms_consumed)

lemma run_consumed:
  "st' \<in> set (run ic pat st) \<Longrightarrow>
   \<exists>w. fst (fst st') = fst (fst st) @ w \<and> snd (fst st) = w @ snd (fst st')"
proof (induction pat arbitrary: st)
  case Nil
  then show ?case by simp
next
  case (Cons i pat)
  from Cons.prems obtain st1 where 1: "st1 \<in> set (step_item ic i st)"
    and 2: "st' \<in> set (run ic pat st1)" by auto
  from step_item_consumed[OF 1] obtain w1 where
    "fst (fst st1) = fst (fst st) @ w1" "snd (fst st) = w1 @ snd (fst st1)" by blast
  moreover from Cons.IH[OF 2] obtain w2 where
    "fst (fst st') = fst (fst st1) @ w2" "snd (fst st1) = w2 @ snd (fst st')" by blast
  ultimately have "fst (fst st') = fst (fst st) @ (w1 @ w2) \<and>
      snd (fst st) = (w1 @ w2) @ snd (fst st')" by simp
  then show ?case by blast
qed






subsection \<open>Evaluating a search on a given text\<close>

lemma lower_chr_upper:
  "lower_chr CHR ''A'' = CHR ''a''" "lower_chr CHR ''B'' = CHR ''b''" "lower_chr CHR ''C'' = CHR ''c''"
  "lower_chr CHR ''D'' = CHR ''d''" "lower_chr CHR ''E'' = CHR ''e''" "lower_chr CHR ''F'' = CHR ''f''"
  "lower_chr CHR ''G'' = CHR ''g''" "lower_chr CHR ''H'' = CHR ''h''" "lower_chr CHR ''I'' = CHR ''i''"
  "lower_chr CHR ''J'' = CHR ''j''" "lower_chr CHR ''K'' = CHR ''k''" "lower_chr CHR ''L'' = CHR ''l''"
  "lower_chr CHR ''M'' = CHR ''m''" "lower_chr CHR ''N'' = CHR ''n''" "lower_chr CHR ''O'' = CHR ''o''"
  "lower_chr CHR ''P'' = CHR ''p''" "lower_chr CHR ''Q'' = CHR ''q''" "lower_chr CHR ''R'' = CHR ''r''"
  "lower_chr CHR ''S'' = CHR ''s''" "lower_chr CHR ''T'' = CHR ''t''" "lower_chr CHR ''U'' = CHR ''u''"
  "lower_chr CHR ''V'' = CHR ''v''" "lower_chr CHR ''W'' = CHR ''w''" "lower_chr CHR ''X'' = CHR ''x''"
  "lower_chr CHR ''Y'' = CHR ''y''" "lower_chr CHR ''Z'' = CHR ''z''"
  by (simp_all add: lower_chr_def upper_chars_def lower_chars_def)

lemma lower_chr_other: "c \<notin> set upper_chars \<Longrightarrow> lower_chr c = c"
proof -
  assume c: "c \<notin> set upper_chars"
  have "length upper_chars = length lower_chars"
    by (simp add: upper_chars_def lower_chars_def)
  then have "map_of (zip upper_chars lower_chars) c = None"
    using c by (simp add: map_of_zip_is_None)
  then show ?thesis by (simp add: lower_chr_def)
qed

lemma search_skip_chr:
  "\<not> (if ic then lower_chr c = lower_chr p else c = p) \<Longrightarrow>
   search_from ic (Atom (Lit (p # ps)) # pat) pre (c # cs) =
   search_from ic (Atom (Lit (p # ps)) # pat) (pre @ [c]) cs"
  by (simp add: step_lit_def first_match_def)

lemma search_skip_lit:
  "\<not> starts_with ic p (c # cs) \<Longrightarrow>
   search_from ic (Atom (Lit p) # pat) pre (c # cs) =
   search_from ic (Atom (Lit p) # pat) (pre @ [c]) cs"
  by (simp add: step_lit_def first_match_def)

lemma search_try:
  "starts_with ic p (c # cs) \<Longrightarrow>
   search_from ic (Atom (Lit p) # pat) pre (c # cs) =
   (case first_match (run ic (Atom (Lit p) # pat) ((pre, c # cs), None)) of
        Some st \<Rightarrow> Some st
      | None \<Rightarrow> search_from ic (Atom (Lit p) # pat) (pre @ [c]) cs)"
  by simp

lemmas char_classes =
  is_space_def is_digit_def is_chr_def is_chr_ic_def digit_or_comma_def not_newline_def
  is_word_def latin1_word_def is_alpha_az_def is_lower_az_def is_upper_az_def upper_chars_def
  lower_chr_upper lower_chr_other

lemmas search_eval =
  re_search_def first_match_def group1_def step_lit_def Let_def char_classes
  search_skip_chr search_try search_skip_lit

section \<open>\<open>get_home_information\<close>: which failures reach the caller\<close>

lemma get_property_details_Inl:
  "get_property_details cl addr = Inl e \<longleftrightarrow>
   cl gpt_model ''You are a real estate database. Respond with only the requested format.''
      (details_prompt addr) = Inl e \<and> \<not> parse_failure e"
proof -
  have "details_block cl addr = Inl e \<and> \<not> parse_failure e \<longleftrightarrow>
        cl gpt_model ''You are a real estate database. Respond with only the requested format.''
          (details_prompt addr) = Inl e \<and> \<not> parse_failure e"
    unfolding details_block_def bind_exn_Inl by (auto dest: parse_details_error)
  then show ?thesis
    by (auto simp: get_property_details_def split: sum.splits if_splits)
qed

lemma get_property_details_Inr:
  assumes "\<forall>e. cl gpt_model ''You are a real estate database. Respond with only the requested format.'' (details_prompt addr) = Inl e \<longrightarrow> parse_failure e"
  shows "\<exists>d. get_property_details cl addr = Inr d
           \<and> ((\<exists>e. cl gpt_model ''You are a real estate database. Respond with only the requested format.'' (details_prompt addr) = Inl e) \<longrightarrow> d = absent_details)"
proof (cases "cl gpt_model ''You are a real estate database. Respond with only the requested format.'' (details_prompt addr)")
  case (Inl e)
  with assms have "parse_failure e" by simp
  with Inl show ?thesis
    by (simp add: get_property_details_def details_block_def bind_exn_def)
next
  case (Inr body)
  show ?thesis
  proof (cases "parse_details body")
    case (Inl e)
    then have "parse_failure e" by (rule parse_details_error)
    with Inl Inr show ?thesis
      by (simp add: get_property_details_def details_block_def bind_exn_def)
  next
    case d: (Inr d)
    with Inr show ?thesis
      by (simp add: get_property_details_def details_block_def bind_exn_def)
  qed
qed

lemma get_nearby_schools_failed:
  "cl gpt_model ''You are a school information database. List exactly 3 schools in the exact format specified.'' (schools_prompt addr) = Inl e \<Longrightarrow> get_nearby_schools cl addr = []"
  by (simp add: get_nearby_schools_def schools_block_def bind_exn_def)

text \<open>
  Claim C1, as the code has it. When the overview request fails, \<open>get_home_information\<close>
  raises an \<open>Exception\<close> whose message is \<open>Error retrieving home information: \<close> followed
  by the text of that failure. When the overview request is answered and the details
  request fails with an exception that is neither an \<open>AttributeError\<close> nor a
  \<open>ValueError\<close> (a failure of the transport is one), it raises in the same way, with
  the text of that failure. In every other case it returns the record: the details
  are absent when the details request failed, and the list of schools is empty when
  the schools request failed.
\<close>

theorem get_home_information_outcome:
  "(\<forall>e. cl gpt_model ''You are a knowledgeable real estate expert.'' (overview_prompt addr) = Inl e \<longrightarrow>
        get_home_information cl addr = Inl (Exception (''Error retrieving home information: '' @ str_of e)))
   \<and> (\<forall>ov e. cl gpt_model ''You are a knowledgeable real estate expert.'' (overview_prompt addr) = Inr ov \<longrightarrow>
        cl gpt_model ''You are a real estate database. Respond with only the requested format.'' (details_prompt addr) = Inl e \<longrightarrow> parse_failure e = False \<longrightarrow>
        get_home_information cl addr = Inl (Exception (''Error retrieving home information: '' @ str_of e)))
   \<and> (\<forall>ov. cl gpt_model ''You are a knowledgeable real estate expert.'' (overview_prompt addr) = Inr ov \<longrightarrow>
        (\<forall>e. cl gpt_model ''You are a real estate database. Respond with only the requested format.'' (details_prompt addr) = Inl e \<longrightarrow> parse_failure e) \<longrightarrow>
        (\<exists>d sch. get_home_information cl addr =
             Inr \<lparr>address = addr, overview = ov, details = d, nearby_schools = sch\<rparr>
           \<and> ((\<exists>e. cl gpt_model ''You are a real estate database. Respond with only the requested format.'' (details_prompt addr) = Inl e) \<longrightarrow> d = absent_details)
           \<and> ((\<exists>e. cl gpt_model ''You are a school information database. List exactly 3 schools in the exact format specified.'' (schools_prompt addr) = Inl e) \<longrightarrow> sch = [])))"
proof (intro conjI allI impI)
  fix e
  assume "cl gpt_model ''You are a knowledgeable real estate expert.'' (overview_prompt addr) = Inl e"
  then show "get_home_information cl addr = Inl (Exception (''Error retrieving home information: '' @ str_of e))"
    by (simp add: get_home_information_def get_property_overview_def wrapped_def)
next
  fix ov e
  assume ov: "cl gpt_model ''You are a knowledgeable real estate expert.'' (overview_prompt addr) = Inr ov"
    and "cl gpt_model ''You are a real estate database. Respond with only the requested format.'' (details_prompt addr) = Inl e" "parse_failure e = False"
  then have "get_property_details cl addr = Inl e"
    by (simp add: get_property_details_Inl)
  with ov show "get_home_information cl addr = Inl (Exception (''Error retrieving home information: '' @ str_of e))"
    by (simp add: get_home_information_def get_property_overview_def wrapped_def)
next
  fix ov
  assume ov: "cl gpt_model ''You are a knowledgeable real estate expert.'' (overview_prompt addr) = Inr ov"
    and ok: "\<forall>e. cl gpt_model ''You are a real estate database. Respond with only the requested format.'' (details_prompt addr) = Inl e \<longrightarrow> parse_failure e"
  from get_property_details_Inr[of cl addr, OF ok] obtain d where
    d: "get_property_details cl addr = Inr d"
    "(\<exists>e. cl gpt_model ''You are a real estate database. Respond with only the requested format.'' (details_prompt addr) = Inl e) \<longrightarrow> d = absent_details"
    by (elim exE conjE)
  have r: "get_home_information cl addr =
      Inr \<lparr>address = addr, overview = ov, details = d,
           nearby_schools = get_nearby_schools cl addr\<rparr>"
    using ov d(1) by (simp add: get_home_information_def get_property_overview_def)
  have s: "(\<exists>e. cl gpt_model ''You are a school information database. List exactly 3 schools in the exact format specified.'' (schools_prompt addr) = Inl e) \<longrightarrow> get_nearby_schools cl addr = []"
    by (intro impI, elim exE, rule get_nearby_schools_failed)
  show "\<exists>d sch. get_home_information cl addr =
             Inr \<lparr>address = addr, overview = ov, details = d, nearby_schools = sch\<rparr>
           \<and> ((\<exists>e. cl gpt_model ''You are a real estate database. Respond with only the requested format.'' (details_prompt addr) = Inl e) \<longrightarrow> d = absent_details)
           \<and> ((\<exists>e. cl gpt_model ''You are a school information database. List exactly 3 schools in the exact format specified.'' (schools_prompt addr) = Inl e) \<longrightarrow> sch = [])"
    using r d(2) s by (intro exI[of _ d] exI[of _ "get_nearby_schools cl addr"] conjI)
qed

theorem get_home_information_outcome_witness:
  "get_home_information
     (\<lambda>m sys usr. if sys = ''You are a knowledgeable real estate expert.'' then Inl (ValueError ''Invalid header.'') else Inr ''ok'')
     ''1 Main St'' = Inl (Exception ''Error retrieving home information: Invalid header.'')
   \<and> get_home_information
     (\<lambda>m sys usr. if sys = ''You are a knowledgeable real estate expert.'' then Inr ''A house.'' else Inl (Exception ''Connection error.''))
     ''1 Main St'' = Inl (Exception ''Error retrieving home information: Connection error.'')
   \<and> (\<exists>d. get_home_information
     (\<lambda>m sys usr. if sys = ''You are a knowledgeable real estate expert.'' then Inr ''A house.'' else Inl (ValueError ''Bad value.''))
     ''1 Main St'' =
       Inr \<lparr>address = ''1 Main St'', overview = ''A house.'', details = d, nearby_schools = []\<rparr>
       \<and> d = absent_details)"
proof -
  define a where "a = (\<lambda>(m::string) (sys::string) (usr::string).
      if sys = ''You are a knowledgeable real estate expert.'' then Inl (ValueError ''Invalid header.'') else (Inr ''ok'' :: py_exception + string))"
  define b where "b = (\<lambda>(m::string) (sys::string) (usr::string).
      if sys = ''You are a knowledgeable real estate expert.'' then Inr ''A house.'' else (Inl (Exception ''Connection error.'') :: py_exception + string))"
  define c where "c = (\<lambda>(m::string) (sys::string) (usr::string).
      if sys = ''You are a knowledgeable real estate expert.'' then Inr ''A house.'' else (Inl (ValueError ''Bad value.'') :: py_exception + string))"
  have a1: "a gpt_model ''You are a knowledgeable real estate expert.'' (overview_prompt ''1 Main St'') = Inl (ValueError ''Invalid header.'')"
    by (simp add: a_def)
  have b1: "b gpt_model ''You are a knowledgeable real estate expert.'' (overview_prompt ''1 Main St'') = Inr ''A house.''"
    and b2: "b gpt_model ''You are a real estate database. Respond with only the requested format.'' (details_prompt ''1 Main St'') = Inl (Exception ''Connection error.'')"
    by (simp_all add: b_def)
  have c1: "c gpt_model ''You are a knowledgeable real estate expert.'' (overview_prompt ''1 Main St'') = Inr ''A house.''"
    and c2: "c gpt_model ''You are a real estate database. Respond with only the requested format.'' (details_prompt ''1 Main St'') = Inl (ValueError ''Bad value.'')"
    and c3: "c gpt_model ''You are a school information database. List exactly 3 schools in the exact format specified.'' (schools_prompt ''1 Main St'') = Inl (ValueError ''Bad value.'')"
    by (simp_all add: c_def)
  note t = get_home_information_outcome
  have ra: "get_home_information a ''1 Main St'' =
      Inl (Exception (''Error retrieving home information: '' @ str_of (ValueError ''Invalid header.'')))"
    by (rule t[of a "''1 Main St''", THEN conjunct1, rule_format, OF a1])
  have rb: "get_home_information b ''1 Main St'' =
      Inl (Exception (''Error retrieving home information: '' @ str_of (Exception ''Connection error.'')))"
    by (rule t[of b "''1 Main St''", THEN conjunct2, THEN conjunct1, rule_format, OF b1 b2]) simp
  have c2': "\<forall>e. c gpt_model ''You are a real estate database. Respond with only the requested format.'' (details_prompt ''1 Main St'') = Inl e \<longrightarrow> parse_failure e"
    by (simp add: c2)
  have "\<exists>d sch. get_home_information c ''1 Main St'' =
             Inr \<lparr>address = ''1 Main St'', overview = ''A house.'', details = d, nearby_schools = sch\<rparr>
           \<and> ((\<exists>e. c gpt_model ''You are a real estate database. Respond with only the requested format.'' (details_prompt ''1 Main St'') = Inl e) \<longrightarrow> d = absent_details)
           \<and> ((\<exists>e. c gpt_model ''You are a school information database. List exactly 3 schools in the exact format specified.'' (schools_prompt ''1 Main St'') = Inl e) \<longrightarrow> sch = [])"
    by (rule t[of c "''1 Main St''", THEN conjunct2, THEN conjunct2, rule_format, OF c1 c2'[rule_format]])
  with c2 c3 have rc: "\<exists>d. get_home_information c ''1 Main St'' =
       Inr \<lparr>address = ''1 Main St'', overview = ''A house.'', details = d, nearby_schools = []\<rparr>
       \<and> d = absent_details"
    by (elim exE conjE) simp
  from ra rb rc show ?thesis unfolding a_def b_def c_def by simp
qed

text \<open>
  The overview request succeeds and the details request fails in the transport: the
  operation raises the wrapped failure instead of returning a record.
\<close>

theorem details_transport_failure_raises:
  "get_property_overview
     (\<lambda>m sys usr. if sys = ''You are a knowledgeable real estate expert.''
                   then Inr ''A house.'' else Inl (Exception ''Connection error.''))
     ''1 Main St, Springfield, IL 62701'' = Inr ''A house.''
   \<and> get_home_information
     (\<lambda>m sys usr. if sys = ''You are a knowledgeable real estate expert.''
                   then Inr ''A house.'' else Inl (Exception ''Connection error.''))
     ''1 Main St, Springfield, IL 62701''
     = Inl (Exception ''Error retrieving home information: Connection error.'')"
  by (simp add: get_home_information_def get_property_overview_def get_property_details_def
      details_block_def bind_exn_def wrapped_def)

text \<open>
  Claim C7. When the overview and the details requests are answered and the schools
  request fails, with whatever exception, the record is returned with an empty list
  of schools. When the overview request fails, the operation raises an exception whose
  message is \<open>Error retrieving home information: \<close> followed by the text of the cause.
\<close>

theorem schools_failure_swallowed_overview_failure_wrapped:
  "(cl gpt_model ''You are a knowledgeable real estate expert.'' (overview_prompt addr) = Inr ov \<longrightarrow>
    cl gpt_model ''You are a real estate database. Respond with only the requested format.'' (details_prompt addr) = Inr body \<longrightarrow>
    cl gpt_model ''You are a school information database. List exactly 3 schools in the exact format specified.'' (schools_prompt addr) = Inl e \<longrightarrow>
    (\<exists>d. get_home_information cl addr =
       Inr \<lparr>address = addr, overview = ov, details = d, nearby_schools = []\<rparr>))
   \<and> (cl gpt_model ''You are a knowledgeable real estate expert.'' (overview_prompt addr) = Inl e' \<longrightarrow>
      get_home_information cl addr = Inl (Exception (''Error retrieving home information: '' @ str_of e')))"
proof (intro conjI impI)
  assume ov: "cl gpt_model ''You are a knowledgeable real estate expert.'' (overview_prompt addr) = Inr ov"
    and dt: "cl gpt_model ''You are a real estate database. Respond with only the requested format.'' (details_prompt addr) = Inr body"
    and sc: "cl gpt_model ''You are a school information database. List exactly 3 schools in the exact format specified.'' (schools_prompt addr) = Inl e"
  from dt have "\<forall>e. cl gpt_model ''You are a real estate database. Respond with only the requested format.'' (details_prompt addr) = Inl e \<longrightarrow> parse_failure e" by simp
  from get_property_details_Inr[of cl addr, OF this] obtain d where
    d: "get_property_details cl addr = Inr d" by (elim exE conjE)
  have "get_home_information cl addr =
       Inr \<lparr>address = addr, overview = ov, details = d, nearby_schools = []\<rparr>"
    using ov d get_nearby_schools_failed[of cl addr e, OF sc]
    by (simp add: get_home_information_def get_property_overview_def)
  then show "\<exists>d. get_home_information cl addr =
       Inr \<lparr>address = addr, overview = ov, details = d, nearby_schools = []\<rparr>" by (rule exI)
next
  assume "cl gpt_model ''You are a knowledgeable real estate expert.'' (overview_prompt addr) = Inl e'"
  then show "get_home_information cl addr = Inl (Exception (''Error retrieving home information: '' @ str_of e'))"
    by (simp add: get_home_information_def get_property_overview_def wrapped_def)
qed

theorem schools_failure_swallowed_overview_failure_wrapped_witness:
  "(\<exists>d. get_home_information
     (\<lambda>m sys usr. if sys = ''You are a school information database. List exactly 3 schools in the exact format specified.'' then Inl (Exception ''Connection error.'') else Inr ''A house.'')
     ''1 Main St'' =
     Inr \<lparr>address = ''1 Main St'', overview = ''A house.'', details = d, nearby_schools = []\<rparr>)
   \<and> get_home_information
     (\<lambda>m sys usr. if sys = ''You are a knowledgeable real estate expert.'' then Inl (Exception ''Request timed out.'') else Inr ''A house.'')
     ''1 Main St'' = Inl (Exception ''Error retrieving home information: Request timed out.'')"
proof -
  define a where "a = (\<lambda>(m::string) (sys::string) (usr::string).
      if sys = ''You are a school information database. List exactly 3 schools in the exact format specified.'' then Inl (Exception ''Connection error.'') else (Inr ''A house.'' :: py_exception + string))"
  define b where "b = (\<lambda>(m::string) (sys::string) (usr::string).
      if sys = ''You are a knowledgeable real estate expert.'' then Inl (Exception ''Request timed out.'') else (Inr ''A house.'' :: py_exception + string))"
  have a1: "a gpt_model ''You are a knowledgeable real estate expert.'' (overview_prompt ''1 Main St'') = Inr ''A house.''"
    and a2: "a gpt_model ''You are a real estate database. Respond with only the requested format.'' (details_prompt ''1 Main St'') = Inr ''A house.''"
    and a3: "a gpt_model ''You are a school information database. List exactly 3 schools in the exact format specified.'' (schools_prompt ''1 Main St'') = Inl (Exception ''Connection error.'')"
    by (simp_all add: a_def)
  have b1: "b gpt_model ''You are a knowledgeable real estate expert.'' (overview_prompt ''1 Main St'') = Inl (Exception ''Request timed out.'')"
    by (simp add: b_def)
  note t = schools_failure_swallowed_overview_failure_wrapped
  have ra: "\<exists>d. get_home_information a ''1 Main St'' =
     Inr \<lparr>address = ''1 Main St'', overview = ''A house.'', details = d, nearby_schools = []\<rparr>"
    by (rule t[of a "''1 Main St''", THEN conjunct1, rule_format, OF a1 a2 a3])
  have rb: "get_home_information b ''1 Main St'' =
     Inl (Exception (''Error retrieving home information: '' @ str_of (Exception ''Request timed out.'')))"
    by (rule t[of b "''1 Main St''", THEN conjunct2, rule_format, OF b1])
  from ra rb show ?thesis unfolding a_def b_def by simp
qed

section \<open>\<open>_get_property_details\<close>: all fields or none\<close>

lemma group1_Inr: "group1 m = Inr g \<Longrightarrow> m \<noteq> None"
  by (cases m) (auto simp: group1_def)







subsection \<open>The details text in the format of the prompt\<close>

lemma digit_facts:
  "is_digit c \<Longrightarrow> \<not> is_space c \<and> \<not> is_chr CHR ''$'' c \<and> \<not> is_chr CHR '':'' c
     \<and> \<not> is_chr CHR ''.'' c \<and> digit_or_comma c"
  by (auto simp: char_classes)

lemma digit_or_comma_lower: "digit_or_comma c \<Longrightarrow> lower_chr c = c"
  by (auto simp: char_classes)

lemma digits_digit_or_comma: "list_all is_digit s \<Longrightarrow> list_all digit_or_comma s"
  by (induction s) (auto simp: digit_or_comma_def)

lemma newline_facts:
  "\<not> digit_or_comma CHR 0x0A" "\<not> is_digit CHR 0x0A" "\<not> is_chr CHR ''.'' CHR 0x0A"
  by (simp_all add: char_classes)

lemma takeWhile_stop:
  "list_all P xs \<Longrightarrow> \<not> P y \<Longrightarrow> takeWhile P (xs @ y # ys) = xs"
  by (induction xs) auto

lemma search_at:
  "first_match (run ic pat ((pre, s), None)) = Some st \<Longrightarrow> search_from ic pat pre s = Some st"
  by (cases s) simp_all

lemma search_skip_run:
  "list_all digit_or_comma p \<Longrightarrow> \<not> digit_or_comma (lower_chr q) \<Longrightarrow>
   search_from True (Atom (Lit (q # qs)) # pat) pre (p @ rest) =
   search_from True (Atom (Lit (q # qs)) # pat) (pre @ p) rest"
proof (induction p arbitrary: pre)
  case Nil
  then show ?case by simp
next
  case (Cons c p)
  from Cons.prems have c: "digit_or_comma c" and p: "list_all digit_or_comma p" by simp_all
  from c Cons.prems(2) have "lower_chr c \<noteq> lower_chr q"
    by (auto simp: digit_or_comma_lower)
  then have "search_from True (Atom (Lit (q # qs)) # pat) pre (c # (p @ rest)) =
             search_from True (Atom (Lit (q # qs)) # pat) (pre @ [c]) (p @ rest)"
    by (intro search_skip_chr) simp
  also have "\<dots> = search_from True (Atom (Lit (q # qs)) # pat) ((pre @ [c]) @ p) rest"
    by (rule Cons.IH[OF p Cons.prems(2)])
  finally show ?case by simp
qed

lemmas match_eval = first_match_def step_lit_def Let_def is_space_def is_chr_def is_chr_ic_def
  lower_chr_upper lower_chr_other upper_chars_def

lemma square_feet_at:
  assumes "is_digit d" "list_all digit_or_comma r" "\<not> digit_or_comma x"
  shows "first_match (run True square_feet_pattern ((pre, ''Square Feet: '' @ d # r @ x # rest), None))
         = Some ((pre @ ''Square Feet: '' @ d # r, x # rest), Some (d # r))"
proof -
  from digit_facts[OF assms(1)] have d: "\<not> is_space d" by simp
  show ?thesis
    using d assms(1) takeWhile_stop[OF assms(2,3)]
    by (simp add: square_feet_pattern_def match_eval)
qed

lemma bedrooms_at:
  assumes "is_digit d" "list_all is_digit r" "\<not> is_digit x"
  shows "first_match (run True bedrooms_pattern ((pre, ''Bedrooms: '' @ d # r @ x # rest), None))
         = Some ((pre @ ''Bedrooms: '' @ d # r, x # rest), Some (d # r))"
proof -
  from digit_facts[OF assms(1)] have d: "\<not> is_space d" by simp
  show ?thesis
    using d assms(1) takeWhile_stop[OF assms(2,3)]
    by (simp add: bedrooms_pattern_def match_eval)
qed

lemma bathrooms_at:
  assumes "is_digit d" "list_all is_digit r" "\<not> is_digit x" "\<not> is_chr CHR ''.'' x"
  shows "first_match (run True bathrooms_pattern ((pre, ''Bathrooms: '' @ d # r @ x # rest), None))
         = Some ((pre @ ''Bathrooms: '' @ d # r, x # rest), Some (d # r))"
proof -
  from digit_facts[OF assms(1)] have d: "\<not> is_space d" by simp
  show ?thesis
    using d assms(1,3,4) takeWhile_stop[OF assms(2,3)]
    by (simp add: bathrooms_pattern_def decimal_group_def match_eval)
qed

lemma estimated_value_at:
  assumes "is_digit d" "list_all digit_or_comma r" "\<not> digit_or_comma x"
  shows "first_match (run True estimated_value_pattern
           ((pre, ''Estimated Value: '' @ (if dollar then ''$'' else []) @ d # r @ x # rest), None))
         = Some ((pre @ ''Estimated Value: '' @ (if dollar then ''$'' else []) @ d # r, x # rest),
                 Some (d # r))"
proof -
  from digit_facts[OF assms(1)] have d: "\<not> is_space d" "\<not> is_chr CHR ''$'' d" by simp_all
  show ?thesis
    using d assms(1) takeWhile_stop[OF assms(2,3)]
    by (cases dollar) (simp_all add: estimated_value_pattern_def match_eval)
qed

lemma year_built_at:
  assumes "is_digit y1" "is_digit y2" "is_digit y3" "is_digit y4"
  shows "first_match (run True year_built_pattern
           ((pre, ''Year Built: '' @ [y1, y2, y3, y4] @ rest), None))
         = Some ((pre @ ''Year Built: '' @ [y1, y2, y3, y4], rest), Some [y1, y2, y3, y4])"
proof -
  from digit_facts[OF assms(1)] have d: "\<not> is_space y1" by simp
  show ?thesis
    using d assms
    by (simp add: year_built_pattern_def match_eval)
qed


lemma search_skip_dc:
  "digit_or_comma c \<Longrightarrow> \<not> digit_or_comma (lower_chr q) \<Longrightarrow>
   search_from True (Atom (Lit (q # qs)) # pat) pre (c # cs) =
   search_from True (Atom (Lit (q # qs)) # pat) (pre @ [c]) cs"
  using search_skip_run[of "[c]" q qs pat pre cs] by simp

lemma group1_search_at:
  assumes "search_from True pat [] s = search_from True pat pre s'"
    and "first_match (run True pat ((pre, s'), None)) = Some (ps, Some g)"
  shows "group1 (re_search True pat s) = Inr g"
  unfolding re_search_def assms(1) search_at[OF assms(2)] by (simp add: group1_def)

lemmas skip_eval = search_skip_chr search_skip_lit lower_chr_upper lower_chr_other
  upper_chars_def digit_or_comma_def is_digit_def

lemma details_text_searches:
  assumes sf: "is_digit d1" "list_all digit_or_comma r1"
    and bd: "is_digit d2" "list_all is_digit r2"
    and ba: "is_digit d3" "list_all is_digit r3"
    and ev: "is_digit d4" "list_all digit_or_comma r4"
    and yb: "is_digit y1" "is_digit y2" "is_digit y3" "is_digit y4"
  shows "group1 (re_search True square_feet_pattern
           (details_text (d1 # r1) (d2 # r2) (d3 # r3) dollar (d4 # r4) [y1, y2, y3, y4])) = Inr (d1 # r1)"
    and "group1 (re_search True bedrooms_pattern
           (details_text (d1 # r1) (d2 # r2) (d3 # r3) dollar (d4 # r4) [y1, y2, y3, y4])) = Inr (d2 # r2)"
    and "group1 (re_search True bathrooms_pattern
           (details_text (d1 # r1) (d2 # r2) (d3 # r3) dollar (d4 # r4) [y1, y2, y3, y4])) = Inr (d3 # r3)"
    and "group1 (re_search True estimated_value_pattern
           (details_text (d1 # r1) (d2 # r2) (d3 # r3) dollar (d4 # r4) [y1, y2, y3, y4])) = Inr (d4 # r4)"
    and "group1 (re_search True year_built_pattern
           (details_text (d1 # r1) (d2 # r2) (d3 # r3) dollar (d4 # r4) [y1, y2, y3, y4]))
         = Inr [y1, y2, y3, y4]"
proof -
  let ?t = "details_text (d1 # r1) (d2 # r2) (d3 # r3) dollar (d4 # r4) [y1, y2, y3, y4]"
  let ?l5 = "''Year Built: '' @ [y1, y2, y3, y4] @ []"
  let ?l4 = "''Estimated Value: '' @ (if dollar then ''$'' else []) @ d4 # r4 @ CHR 0x0A # ?l5"
  let ?l3 = "''Bathrooms: '' @ d3 # r3 @ CHR 0x0A # ?l4"
  let ?l2 = "''Bedrooms: '' @ d2 # r2 @ CHR 0x0A # ?l3"
  let ?l1 = "''Square Feet: '' @ d1 # r1 @ CHR 0x0A # ?l2"
  let ?p2 = "''Square Feet: '' @ d1 # r1 @ [CHR 0x0A]"
  let ?p3 = "?p2 @ ''Bedrooms: '' @ d2 # r2 @ [CHR 0x0A]"
  let ?p4 = "?p3 @ ''Bathrooms: '' @ d3 # r3 @ [CHR 0x0A]"
  let ?p5 = "?p4 @ ''Estimated Value: '' @ (if dollar then ''$'' else []) @ d4 # r4 @ [CHR 0x0A]"
  have t: "?t = ?l1" by (simp add: details_text_def)
  have c: "digit_or_comma d1" "digit_or_comma d2" "digit_or_comma d3" "digit_or_comma d4"
    using digit_facts[OF sf(1)] digit_facts[OF bd(1)] digit_facts[OF ba(1)] digit_facts[OF ev(1)]
    by simp_all
  note runs = search_skip_run[OF sf(2)] search_skip_run[OF digits_digit_or_comma[OF bd(2)]]
    search_skip_run[OF digits_digit_or_comma[OF ba(2)]] search_skip_run[OF ev(2)]
    search_skip_dc[OF c(1)] search_skip_dc[OF c(2)] search_skip_dc[OF c(3)] search_skip_dc[OF c(4)]
  show "group1 (re_search True square_feet_pattern ?t) = Inr (d1 # r1)"
    unfolding t
    by (rule group1_search_at[OF refl square_feet_at[OF sf newline_facts(1)]])
  have s2: "search_from True bedrooms_pattern [] ?l1 = search_from True bedrooms_pattern ?p2 ?l2"
    by (cases dollar) (simp_all add: bedrooms_pattern_def runs skip_eval del: search_from.simps)
  show "group1 (re_search True bedrooms_pattern ?t) = Inr (d2 # r2)"
    unfolding t
    by (rule group1_search_at[OF s2 bedrooms_at[OF bd newline_facts(2)]])
  have s3: "search_from True bathrooms_pattern [] ?l1 = search_from True bathrooms_pattern ?p3 ?l3"
    by (cases dollar) (simp_all add: bathrooms_pattern_def runs skip_eval del: search_from.simps)
  show "group1 (re_search True bathrooms_pattern ?t) = Inr (d3 # r3)"
    unfolding t
    by (rule group1_search_at[OF s3 bathrooms_at[OF ba newline_facts(2,3)]])
  have s4: "search_from True estimated_value_pattern [] ?l1 =
            search_from True estimated_value_pattern ?p4 ?l4"
    by (cases dollar) (simp_all add: estimated_value_pattern_def runs skip_eval del: search_from.simps)
  show "group1 (re_search True estimated_value_pattern ?t) = Inr (d4 # r4)"
    unfolding t
    by (rule group1_search_at[OF s4 estimated_value_at[OF ev newline_facts(1)]])
  have s5: "search_from True year_built_pattern [] ?l1 = search_from True year_built_pattern ?p5 ?l5"
    by (cases dollar) (simp_all add: year_built_pattern_def runs skip_eval del: search_from.simps)
  show "group1 (re_search True year_built_pattern ?t) = Inr [y1, y2, y3, y4]"
    unfolding t
    by (rule group1_search_at[OF s5 year_built_at[OF yb]])
qed


lemma digits_only_filter: "list_all is_digit s \<Longrightarrow> filter is_digit s = s"
  by (induction s) auto

lemma remove_commas_digits:
  "list_all digit_or_comma s \<Longrightarrow> remove_commas s = filter is_digit s"
  by (induction s) (auto simp: remove_commas_def digit_or_comma_def is_digit_def)

lemma py_float_of_digits:
  assumes "list_all is_digit s" "s \<noteq> []"
  shows "py_float s = Inr (of_nat (digits_val s))"
proof -
  from assms(1) have tw: "takeWhile is_digit s = s" and dw: "dropWhile is_digit s = []"
    by (induction s) auto
  show ?thesis unfolding py_float_def tw dw using assms(2) by simp
qed

lemma grouped_number_float:
  assumes "grouped_number s"
  shows "py_float (remove_commas s) = Inr (of_nat (number_value s))"
proof -
  from assms obtain d r where s: "s = d # r" and d: "is_digit d"
    and all: "list_all digit_or_comma s"
    by (cases s) (auto simp: grouped_number_def)
  have "list_all is_digit (filter is_digit s)" by (induction s) auto
  moreover have "filter is_digit s \<noteq> []" using s d by simp
  ultimately show ?thesis
    unfolding remove_commas_digits[OF all] number_value_def by (rule py_float_of_digits)
qed

lemma plain_number_conversions:
  assumes "plain_number n s"
  shows "py_int s = Inr (int (number_value s))" and "py_float s = Inr (of_nat (number_value s))"
proof -
  from assms have a: "list_all is_digit s" "s \<noteq> []" by (simp_all add: plain_number_def)
  from a show "py_int s = Inr (int (number_value s))"
    by (simp add: py_int_def number_value_def digits_only_filter)
  from py_float_of_digits[OF a] show "py_float s = Inr (of_nat (number_value s))"
    by (simp add: number_value_def digits_only_filter[OF a(1)])
qed

lemma details_text_parsed:
  assumes sf: "grouped_number sf" and bd: "plain_number 4300 bd" and ba: "plain_number 15 ba"
    and ev: "grouped_number ev" and yb: "plain_number 4 yb" "length yb = 4"
  shows "parse_details (details_text sf bd ba dollar ev yb) =
         Inr \<lparr>square_feet = Some (of_nat (number_value sf)), bedrooms = Some (int (number_value bd)),
              bathrooms = Some (of_nat (number_value ba)),
              estimated_value = Some (of_nat (number_value ev)),
              year_built = Some (int (number_value yb))\<rparr>"
proof -
  from sf obtain d1 r1 where 1: "sf = d1 # r1" "is_digit d1" "list_all digit_or_comma r1"
    by (cases sf) (auto simp: grouped_number_def)
  from bd obtain d2 r2 where 2: "bd = d2 # r2" "is_digit d2" "list_all is_digit r2"
    by (cases bd) (auto simp: plain_number_def)
  from ba obtain d3 r3 where 3: "ba = d3 # r3" "is_digit d3" "list_all is_digit r3"
    by (cases ba) (auto simp: plain_number_def)
  from ev obtain d4 r4 where 4: "ev = d4 # r4" "is_digit d4" "list_all digit_or_comma r4"
    by (cases ev) (auto simp: grouped_number_def)
  from yb(2) obtain y1 y2 y3 y4 where 5: "yb = [y1, y2, y3, y4]"
    by (auto simp: length_Suc_conv eval_nat_numeral)
  from yb(1) have 6: "is_digit y1" "is_digit y2" "is_digit y3" "is_digit y4"
    unfolding 5 by (simp_all add: plain_number_def)
  note g = details_text_searches[OF 1(2,3) 2(2,3) 3(2,3) 4(2,3) 6, of dollar, folded 1(1) 2(1) 3(1) 4(1) 5]
  show ?thesis
    unfolding parse_details_def g
    by (simp add: bind_exn_def grouped_number_float[OF sf] grouped_number_float[OF ev]
        plain_number_conversions[OF bd] plain_number_conversions[OF ba]
        plain_number_conversions[OF yb(1)])
qed

section \<open>The scenarios of the specification\<close>

text \<open>
  Claim C9. The details text of the scenario parses to
  \<open>PropertyDetails(1200.0, 3, 2.0, 450000.0, 1995)\<close>. More generally, a details text in
  the format of the prompt, with or without a dollar sign before the estimated value,
  parses to the five numbers it shows: the commas of the square feet and of the
  estimated value are dropped before the conversion. The numbers that become a
  \<open>float\<close> have at most fifteen digits here (they are doubles without rounding), the
  number of bedrooms at most 4300 (the default limit of \<open>int\<close>).
\<close>

theorem details_format_parsed:
  "parse_details
     ''Square Feet: 1,200\<newline>Bedrooms: 3\<newline>Bathrooms: 2\<newline>Estimated Value: $450,000\<newline>Year Built: 1995''
   = Inr \<lparr>square_feet = Some 1200, bedrooms = Some 3, bathrooms = Some 2,
          estimated_value = Some 450000, year_built = Some 1995\<rparr>
   \<and> (grouped_number sf \<and> plain_number 4300 bd \<and> plain_number 15 ba \<and> grouped_number ev
        \<and> plain_number 4 yb \<and> length yb = 4 \<longrightarrow>
      parse_details (details_text sf bd ba dollar ev yb) =
      Inr \<lparr>square_feet = Some (of_nat (number_value sf)), bedrooms = Some (int (number_value bd)),
           bathrooms = Some (of_nat (number_value ba)),
           estimated_value = Some (of_nat (number_value ev)),
           year_built = Some (int (number_value yb))\<rparr>)"
proof (intro conjI impI)
  have h: "grouped_number ''1,200''" "plain_number 4300 ''3''" "plain_number 15 ''2''"
    "grouped_number ''450,000''" "plain_number 4 ''1995''" "length ''1995'' = 4"
    by (simp_all add: grouped_number_def plain_number_def digit_or_comma_def is_digit_def)
  have v: "number_value ''1,200'' = 1200" "number_value ''3'' = 3" "number_value ''2'' = 2"
    "number_value ''450,000'' = 450000" "number_value ''1995'' = 1995"
    by (simp_all add: number_value_def digits_val_def digit_val_def is_digit_def)
  from details_text_parsed[OF h, of True]
  show "parse_details
     ''Square Feet: 1,200\<newline>Bedrooms: 3\<newline>Bathrooms: 2\<newline>Estimated Value: $450,000\<newline>Year Built: 1995''
   = Inr \<lparr>square_feet = Some 1200, bedrooms = Some 3, bathrooms = Some 2,
          estimated_value = Some 450000, year_built = Some 1995\<rparr>"
    unfolding v by (simp add: details_text_def)
next
  assume "grouped_number sf \<and> plain_number 4300 bd \<and> plain_number 15 ba \<and> grouped_number ev
        \<and> plain_number 4 yb \<and> length yb = 4"
  then show "parse_details (details_text sf bd ba dollar ev yb) =
      Inr \<lparr>square_feet = Some (of_nat (number_value sf)), bedrooms = Some (int (number_value bd)),
           bathrooms = Some (of_nat (number_value ba)),
           estimated_value = Some (of_nat (number_value ev)),
           year_built = Some (int (number_value yb))\<rparr>"
    by (intro details_text_parsed) simp_all
qed

theorem details_format_parsed_witness:
  "parse_details
     ''Square Feet: 2,350\<newline>Bedrooms: 4\<newline>Bathrooms: 3\<newline>Estimated Value: 1,250,000\<newline>Year Built: 2008''
   = Inr \<lparr>square_feet = Some 2350, bedrooms = Some 4, bathrooms = Some 3,
          estimated_value = Some 1250000, year_built = Some 2008\<rparr>"
proof -
  have h: "grouped_number ''2,350'' \<and> plain_number 4300 ''4'' \<and> plain_number 15 ''3''
    \<and> grouped_number ''1,250,000'' \<and> plain_number 4 ''2008'' \<and> length ''2008'' = 4"
    by (simp add: grouped_number_def plain_number_def digit_or_comma_def is_digit_def)
  have v: "number_value ''2,350'' = 2350" "number_value ''4'' = 4" "number_value ''3'' = 3"
    "number_value ''1,250,000'' = 1250000" "number_value ''2008'' = 2008"
    by (simp_all add: number_value_def digits_val_def digit_val_def is_digit_def)
  from details_format_parsed[of "''2,350''" "''4''" "''3''" "''1,250,000''" "''2008''" False,
      THEN conjunct2, rule_format, OF h]
  show ?thesis unfolding v by (simp add: details_text_def)
qed

text \<open>
  Claim C8. \<open>validate_zipcode\<close> accepts five digits followed by a line feed: \<open>$\<close>
  also holds before a line feed that ends the text, so the match is not anchored at
  the end of the string. The other three inputs are those of the tests.
\<close>

theorem zipcode_trailing_newline_accepted:
  "validate_zipcode ''90210\<newline>'' \<and> validate_zipcode ''90210''
   \<and> validate_zipcode ''90210-1234'' \<and> \<not> validate_zipcode ''1234''"
  by (simp add: validate_zipcode_def zipcode_pattern_def re_match_def first_match_def
      step_lit_def Let_def char_classes)

section \<open>\<open>_get_nearby_schools\<close>: the entries and the Schools\<close>

lemma take_within_takeWhile:
  "k \<le> length (takeWhile P s) \<Longrightarrow> list_all P (take k s) \<and> length (take k s) = k"
proof -
  assume k: "k \<le> length (takeWhile P s)"
  have "take k s = take k (takeWhile P s @ dropWhile P s)" by simp
  also have "\<dots> = take k (takeWhile P s)" using k by (simp del: takeWhile_dropWhile_id)
  finally have eq: "take k s = take k (takeWhile P s)" .
  have "\<forall>x \<in> set (take k (takeWhile P s)). P x"
    by (meson in_set_takeD set_takeWhileD)
  with eq k show ?thesis by (simp add: list_all_iff)
qed

lemma step_rep_consumed:
  assumes "ps' \<in> set (step_atom ic (Rep cls lo hi) ps)"
  shows "\<exists>w. fst ps' = fst ps @ w \<and> snd ps = w @ snd ps' \<and> list_all cls w \<and> lo \<le> length w
            \<and> (case hi of None \<Rightarrow> True | Some h \<Rightarrow> length w \<le> h)"
proof -
  let ?n = "length (takeWhile cls (snd ps))"
  let ?m = "case hi of None \<Rightarrow> ?n | Some h \<Rightarrow> min ?n h"
  from assms obtain k where k: "lo \<le> k" "k \<le> ?m"
    and ps': "ps' = (fst ps @ take k (snd ps), drop k (snd ps))"
    by (auto simp: Let_def)
  from k(2) have kn: "k \<le> ?n" by (cases hi) auto
  from take_within_takeWhile[OF kn]
  have w: "list_all cls (take k (snd ps))" "length (take k (snd ps)) = k" by auto
  have "case hi of None \<Rightarrow> True | Some h \<Rightarrow> length (take k (snd ps)) \<le> h"
    using k(2) w(2) by (cases hi) auto
  with ps' w k(1) show ?thesis
    by (intro exI[of _ "take k (snd ps)"]) simp
qed

lemma group_capture:
  assumes "st' \<in> set (step_item ic (Group as) st)"
  shows "\<exists>ps' w. ps' \<in> set (run_atoms ic as (fst st)) \<and> fst ps' = fst (fst st) @ w
                \<and> snd st' = Some w"
proof -
  from assms obtain ps' where 1: "ps' \<in> set (run_atoms ic as (fst st))"
    and 2: "st' = (ps', Some (drop (length (fst (fst st))) (fst ps')))" by auto
  from run_atoms_consumed[OF 1] obtain w where "fst ps' = fst (fst st) @ w" by blast
  with 1 2 show ?thesis by (intro exI[of _ ps'] exI[of _ w]) simp
qed

lemma run_group_capture:
  assumes "st' \<in> set (run ic (pat @ [Group as]) st)"
  shows "\<exists>ps ps' w. ps' \<in> set (run_atoms ic as ps) \<and> fst ps' = fst ps @ w \<and> snd st' = Some w"
proof -
  from assms obtain st1 where "st' \<in> set (step_item ic (Group as) st1)"
    by (auto simp: run_append)
  from group_capture[OF this] show ?thesis by blast
qed

lemma search_group_capture:
  assumes "re_search ic (pat @ [Group as]) s = Some st"
  shows "\<exists>ps ps' w. ps' \<in> set (run_atoms ic as ps) \<and> fst ps' = fst ps @ w \<and> snd st = Some w"
proof -
  from assms obtain pre' s' where "st \<in> set (run ic (pat @ [Group as]) ((pre', s'), None))"
    unfolding re_search_def by (blast dest: search_from_in_run)
  then show ?thesis by (rule run_group_capture)
qed

lemma takeWhile_all: "list_all P s \<Longrightarrow> takeWhile P s = s \<and> dropWhile P s = []"
  by (induction s) auto

lemma py_float_digits:
  assumes "list_all is_digit s" "s \<noteq> []"
  shows "\<exists>v. py_float s = Inr v"
proof -
  from takeWhile_all[OF assms(1)]
  have tw: "takeWhile is_digit s = s" and dw: "dropWhile is_digit s = []" by blast+
  show ?thesis unfolding py_float_def tw dw using assms(2) by simp
qed

lemma py_float_decimal:
  assumes "list_all is_digit w1" "w1 \<noteq> []" "list_all (is_chr CHR ''.'') w2" "length w2 \<le> 1"
    and "list_all is_digit w3"
  shows "\<exists>v. py_float (w1 @ w2 @ w3) = Inr v"
proof (cases w2)
  case Nil
  from assms have "list_all is_digit (w1 @ w3)" "w1 @ w3 \<noteq> []" by simp_all
  from py_float_digits[OF this] Nil show ?thesis by simp
next
  case (Cons c cs)
  with assms(3,4) have w2: "w2 = [CHR ''.'']" by (simp add: is_chr_def)
  have nd: "\<not> is_digit CHR ''.''" by (simp add: is_digit_def)
  from assms(1) have all: "\<forall>x \<in> set w1. is_digit x" by (simp add: list_all_iff)
  have "takeWhile is_digit (w1 @ CHR ''.'' # w3) = w1"
    using all nd by (simp add: takeWhile_append2)
  moreover have "dropWhile is_digit (w1 @ CHR ''.'' # w3) = CHR ''.'' # w3"
    using all nd by (simp add: dropWhile_append2)
  ultimately show ?thesis using w2 assms(2,5) by (simp add: py_float_def)
qed

lemma decimal_group_float:
  assumes "ps' \<in> set (run_atoms ic decimal_group ps)" and "fst ps' = fst ps @ w"
  shows "\<exists>v. py_float w = Inr v"
proof -
  from assms(1) obtain ps1 ps2 where
    1: "ps1 \<in> set (step_atom ic (Rep is_digit 1 None) ps)" and
    2: "ps2 \<in> set (step_atom ic (Rep (is_chr CHR ''.'') 0 (Some 1)) ps1)" and
    3: "ps' \<in> set (step_atom ic (Rep is_digit 0 None) ps2)"
    unfolding decimal_group_def by auto
  from step_rep_consumed[OF 1] obtain w1 where
    w1: "fst ps1 = fst ps @ w1" "list_all is_digit w1" "1 \<le> length w1" by auto
  from step_rep_consumed[OF 2] obtain w2 where
    w2: "fst ps2 = fst ps1 @ w2" "list_all (is_chr CHR ''.'') w2" "length w2 \<le> 1" by auto
  from step_rep_consumed[OF 3] obtain w3 where
    w3: "fst ps' = fst ps2 @ w3" "list_all is_digit w3" by auto
  from w1(1) w2(1) w3(1) assms(2) have "w = w1 @ w2 @ w3" by simp
  moreover from w1(3) have "w1 \<noteq> []" by auto
  ultimately show ?thesis using py_float_decimal[OF w1(2) _ w2(2,3) w3(2)] by simp
qed

lemma starts_with_lower:
  "starts_with True p s \<Longrightarrow> py_lower (take (length p) s) = py_lower p"
  by (induction True p s rule: starts_with.induct) (auto simp: py_lower_def)

lemma school_types_lower: "p \<in> set school_types \<Longrightarrow> py_lower p = p"
  by (auto simp: school_types_def py_lower_def char_classes)

lemma type_group_lower:
  assumes "ps' \<in> set (run_atoms True [Alt school_types] ps)" and "fst ps' = fst ps @ w"
  shows "py_lower w \<in> set school_types"
proof -
  from assms(1) obtain p where p: "p \<in> set school_types" and "ps' \<in> set (step_lit True p ps)"
    by auto
  then have sw: "starts_with True p (snd ps)" and "fst ps' = fst ps @ take (length p) (snd ps)"
    by (auto simp: step_lit_def split: if_splits)
  with assms(2) have "w = take (length p) (snd ps)" by simp
  with starts_with_lower[OF sw] school_types_lower[OF p] p show ?thesis by simp
qed

lemma school_pattern_shapes:
  "name_pattern = [Atom (Lit ''Name:''), Atom (Rep is_space 0 None)] @ [Group [Rep not_newline 1 None]]"
  "distance_pattern = [Atom (Lit ''Distance:''), Atom (Rep is_space 0 None)] @ [Group decimal_group]"
  "rating_pattern = [Atom (Lit ''Rating:''), Atom (Rep is_space 0 None)] @ [Group decimal_group]"
  "type_pattern = [Atom (Lit ''Type:''), Atom (Rep is_space 0 None)] @ [Group [Alt school_types]]"
  by (simp_all add: name_pattern_def distance_pattern_def rating_pattern_def type_pattern_def)

lemma group1_found:
  assumes "re_search ic (pat @ [Group as]) s = Some st"
  shows "\<exists>ps ps' w. ps' \<in> set (run_atoms ic as ps) \<and> fst ps' = fst ps @ w
           \<and> group1 (re_search ic (pat @ [Group as]) s) = Inr w"
proof -
  from search_group_capture[OF assms] obtain ps ps' w where
    "ps' \<in> set (run_atoms ic as ps)" "fst ps' = fst ps @ w" "snd st = Some w" by blast
  with assms show ?thesis
    by (intro exI[of _ ps] exI[of _ ps'] exI[of _ w]) (simp add: group1_def)
qed

lemma name_found:
  assumes "re_search True name_pattern e \<noteq> None"
  shows "\<exists>n. group1 (re_search True name_pattern e) = Inr n"
proof -
  from assms obtain st where "re_search True name_pattern e = Some st" by auto
  from group1_found[OF this[unfolded school_pattern_shapes]]
  show ?thesis unfolding school_pattern_shapes by metis
qed

lemma distance_found:
  assumes "re_search True distance_pattern e \<noteq> None"
  shows "\<exists>g v. group1 (re_search True distance_pattern e) = Inr g \<and> py_float g = Inr v"
proof -
  from assms obtain st where "re_search True distance_pattern e = Some st" by auto
  from group1_found[OF this[unfolded school_pattern_shapes]] decimal_group_float
  show ?thesis unfolding school_pattern_shapes by metis
qed

lemma rating_found:
  assumes "re_search True rating_pattern e \<noteq> None"
  shows "\<exists>g v. group1 (re_search True rating_pattern e) = Inr g \<and> py_float g = Inr v"
proof -
  from assms obtain st where "re_search True rating_pattern e = Some st" by auto
  from group1_found[OF this[unfolded school_pattern_shapes]] decimal_group_float
  show ?thesis unfolding school_pattern_shapes by metis
qed

lemma type_found:
  assumes "re_search True type_pattern e \<noteq> None"
  shows "\<exists>g. group1 (re_search True type_pattern e) = Inr g \<and> py_lower g \<in> set school_types"
proof -
  from assms obtain st where "re_search True type_pattern e = Some st" by auto
  from group1_found[OF this[unfolded school_pattern_shapes]] type_group_lower
  show ?thesis unfolding school_pattern_shapes by metis
qed

lemma entry_block_lacking: "lacks_field e \<Longrightarrow> entry_block e = Inr []"
  by (auto simp: lacks_field_def entry_block_def Let_def)

lemma entry_block_complete:
  assumes "\<not> lacks_field e"
  shows "\<exists>sc. entry_block e = Inr [sc] \<and> rating sc \<noteq> None \<and> type sc \<in> set school_types"
proof -
  from assms have f: "re_search True name_pattern e \<noteq> None"
    "re_search True distance_pattern e \<noteq> None" "re_search True rating_pattern e \<noteq> None"
    "re_search True type_pattern e \<noteq> None"
    by (simp_all add: lacks_field_def)
  from name_found[OF f(1)] obtain n where n: "group1 (re_search True name_pattern e) = Inr n" ..
  from distance_found[OF f(2)] obtain dg d where
    d: "group1 (re_search True distance_pattern e) = Inr dg" "py_float dg = Inr d" by blast
  from rating_found[OF f(3)] obtain rg r where
    r: "group1 (re_search True rating_pattern e) = Inr rg" "py_float rg = Inr r" by blast
  from type_found[OF f(4)] obtain t where
    t: "group1 (re_search True type_pattern e) = Inr t" "py_lower t \<in> set school_types" by blast
  have "entry_block e =
      Inr [\<lparr>name = py_strip n, distance = d, rating = Some r, type = py_lower t\<rparr>]"
    unfolding entry_block_def Let_def using f by (simp add: n d r t bind_exn_def)
  with t(2) show ?thesis by simp
qed

lemma schools_loop_spec:
  "\<exists>news. schools_loop es acc = Inr (acc @ news)
     \<and> length news = length (filter (\<lambda>e. \<not> lacks_field e) es)
     \<and> (\<forall>sc \<in> set news. rating sc \<noteq> None \<and> type sc \<in> set school_types)
     \<and> map (\<lambda>sc. Inr [sc]) news = map entry_block (filter (\<lambda>e. \<not> lacks_field e) es)"
proof (induction es arbitrary: acc)
  case Nil
  then show ?case by simp
next
  case (Cons e es)
  show ?case
  proof (cases "lacks_field e")
    case True
    from Cons.IH[of acc] entry_block_lacking[OF True] True show ?thesis by simp
  next
    case False
    from entry_block_complete[OF False] obtain sc where
      sc: "entry_block e = Inr [sc]" "rating sc \<noteq> None" "type sc \<in> set school_types" by blast
    from Cons.IH[of "acc @ [sc]"] obtain news where
      news: "schools_loop es (acc @ [sc]) = Inr ((acc @ [sc]) @ news)"
      "length news = length (filter (\<lambda>e. \<not> lacks_field e) es)"
      "\<forall>sc \<in> set news. rating sc \<noteq> None \<and> type sc \<in> set school_types"
      "map (\<lambda>sc. Inr [sc]) news = map entry_block (filter (\<lambda>e. \<not> lacks_field e) es)" by blast
    have "schools_loop (e # es) acc = Inr (acc @ (sc # news))
      \<and> length (sc # news) = length (filter (\<lambda>e. \<not> lacks_field e) (e # es))
      \<and> (\<forall>s \<in> set (sc # news). rating s \<noteq> None \<and> type s \<in> set school_types)
      \<and> map (\<lambda>sc. Inr [sc]) (sc # news) = map entry_block (filter (\<lambda>e. \<not> lacks_field e) (e # es))"
      using sc news False by simp
    then show ?thesis by (rule exI)
  qed
qed

section \<open>\<open>_get_nearby_schools\<close>: what the list holds\<close>

lemma parse_schools_spec:
  "\<exists>schools. parse_schools body = Inr schools
     \<and> length schools = length (filter (\<lambda>e. \<not> lacks_field e) (school_entries body))
     \<and> (\<forall>sc \<in> set schools. rating sc \<noteq> None \<and> type sc \<in> set school_types)
     \<and> map (\<lambda>sc. Inr [sc]) schools =
         map entry_block (filter (\<lambda>e. \<not> lacks_field e) (school_entries body))"
  using schools_loop_spec[of "school_entries body" "[]"] by (simp add: parse_schools_def)

lemma length_filter_split:
  "length (filter (\<lambda>e. \<not> P e) xs) + length (filter P xs) = length xs"
  by (induction xs) auto

text \<open>
  The loop reads each entry on its own. The Schools returned are those of the entries
  in which all four searches find something, one each and in their order; an entry in
  which one search finds nothing gives no School and no error.
\<close>

lemma entries_read_on_their_own:
  "\<exists>schools. parse_schools body = Inr schools
     \<and> map (\<lambda>sc. Inr [sc]) schools =
         map entry_block (filter (\<lambda>e. \<not> lacks_field e) (school_entries body))
     \<and> (\<forall>e. lacks_field e \<longrightarrow> entry_block e = Inr [])
     \<and> (\<forall>e1 e2 e3. school_entries body = [e1, e2, e3] \<longrightarrow>
           length (filter lacks_field [e1, e2, e3]) = 1 \<longrightarrow> length schools = 2)"
proof -
  from parse_schools_spec[of body] obtain schools where
    s: "parse_schools body = Inr schools"
    "length schools = length (filter (\<lambda>e. \<not> lacks_field e) (school_entries body))"
    "map (\<lambda>sc. Inr [sc]) schools =
       map entry_block (filter (\<lambda>e. \<not> lacks_field e) (school_entries body))" by blast
  have three: "length schools = 2"
    if "school_entries body = [e1, e2, e3]" "length (filter lacks_field [e1, e2, e3]) = 1"
    for e1 e2 e3
  proof -
    from length_filter_split[of lacks_field "[e1, e2, e3]"] that(2)
    have "length (filter (\<lambda>e. \<not> lacks_field e) [e1, e2, e3]) = 2" by simp
    with s(2) that(1) show ?thesis by simp
  qed
  have "parse_schools body = Inr schools
     \<and> map (\<lambda>sc. Inr [sc]) schools =
         map entry_block (filter (\<lambda>e. \<not> lacks_field e) (school_entries body))
     \<and> (\<forall>e. lacks_field e \<longrightarrow> entry_block e = Inr [])
     \<and> (\<forall>e1 e2 e3. school_entries body = [e1, e2, e3] \<longrightarrow>
           length (filter lacks_field [e1, e2, e3]) = 1 \<longrightarrow> length schools = 2)"
    using s(1,3) three entry_block_lacking by blast
  then show ?thesis by (rule exI)
qed


text \<open>
  Claim C6, as the code has it. The list is never longer than the list of entries of
  the answer, and nothing caps it at three. The Schools come in the order of the
  entries they were read from.
\<close>

theorem schools_follow_entries:
  "\<exists>schools. parse_schools body = Inr schools
     \<and> length schools \<le> length (school_entries body)
     \<and> (\<exists>es. subseq es (school_entries body)
              \<and> map entry_block es = map (\<lambda>sc. Inr [sc]) schools)"
proof -
  from parse_schools_spec[of body] obtain schools where
    s: "parse_schools body = Inr schools"
    "length schools = length (filter (\<lambda>e. \<not> lacks_field e) (school_entries body))"
    "map (\<lambda>sc. Inr [sc]) schools =
       map entry_block (filter (\<lambda>e. \<not> lacks_field e) (school_entries body))" by blast
  have "subseq (filter (\<lambda>e. \<not> lacks_field e) (school_entries body)) (school_entries body)"
    by simp
  with s(3) have "\<exists>es. subseq es (school_entries body)
              \<and> map entry_block es = map (\<lambda>sc. Inr [sc]) schools" by metis
  moreover from s(2) have "length schools \<le> length (school_entries body)" by simp
  ultimately show ?thesis using s(1) by blast
qed

text \<open>
  On a text of characters below 256, parsing never fails and every School of the list
  has a rating; its type is one of the three texts \<open>elementary school\<close>,
  \<open>middle school\<close> and \<open>high school\<close>, in lower case. (Beyond these characters,
  \<open>re.IGNORECASE\<close> also lets the long s, U+017F, stand for \<open>s\<close>, and \<open>lower()\<close>
  keeps it.)
\<close>

lemma schools_have_all_fields:
  "\<exists>schools. parse_schools body = Inr schools
     \<and> (\<forall>sc \<in> set schools.
           (\<exists>r. rating sc = Some r)
           \<and> (type sc = ''elementary school'' \<or> type sc = ''middle school''
               \<or> type sc = ''high school'')
           \<and> py_lower (type sc) = type sc)"
proof -
  from parse_schools_spec[of body] obtain schools where
    s: "parse_schools body = Inr schools"
    "\<forall>sc \<in> set schools. rating sc \<noteq> None \<and> type sc \<in> set school_types" by blast
  have "(\<exists>r. rating sc = Some r)
           \<and> (type sc = ''elementary school'' \<or> type sc = ''middle school''
               \<or> type sc = ''high school'')
           \<and> py_lower (type sc) = type sc" if "sc \<in> set schools" for sc
  proof -
    from s(2) that have r: "rating sc \<noteq> None" and t: "type sc \<in> set school_types" by auto
    from t have "py_lower (type sc) = type sc" by (rule school_types_lower)
    moreover from t have "type sc = ''elementary school'' \<or> type sc = ''middle school''
               \<or> type sc = ''high school''" by (simp add: school_types_def)
    ultimately show ?thesis using r by auto
  qed
  with s(1) show ?thesis by blast
qed

section \<open>Example answers of the schools request\<close>

lemma example_entry_searches:
  "group1 (re_search True name_pattern ''Name: A\<newline>Distance: 1\<newline>Rating: 9\<newline>Type: high school'') = Inr ''A''"
  "group1 (re_search True distance_pattern ''Name: A\<newline>Distance: 1\<newline>Rating: 9\<newline>Type: high school'') = Inr ''1''"
  "group1 (re_search True rating_pattern ''Name: A\<newline>Distance: 1\<newline>Rating: 9\<newline>Type: high school'') = Inr ''9''"
  "group1 (re_search True type_pattern ''Name: A\<newline>Distance: 1\<newline>Rating: 9\<newline>Type: high school'') = Inr ''high school''"
  by (simp_all add: search_eval name_pattern_def distance_pattern_def rating_pattern_def
      type_pattern_def decimal_group_def school_types_def del: search_from.simps(2))

lemma example_entry_complete: "\<not> lacks_field ''Name: A\<newline>Distance: 1\<newline>Rating: 9\<newline>Type: high school''"
  using example_entry_searches[THEN group1_Inr] by (simp add: lacks_field_def)

lemma example_entry_block:
  "entry_block ''Name: A\<newline>Distance: 1\<newline>Rating: 9\<newline>Type: high school'' = Inr [\<lparr>name = ''A'', distance = 1, rating = Some 9, type = ''high school''\<rparr>]"
proof -
  have f: "py_float ''1'' = Inr 1" "py_float ''9'' = Inr 9"
    by (simp_all add: py_float_def digits_val_def digit_val_def is_digit_def)
  have l: "py_lower ''high school'' = ''high school''" "py_strip ''A'' = ''A''"
    by (simp_all add: py_lower_def py_strip_def char_classes)
  show ?thesis
    unfolding entry_block_def Let_def
    using example_entry_searches[THEN group1_Inr]
    by (simp add: example_entry_searches bind_exn_def f l)
qed

lemma unrated_entry_searches:
  "group1 (re_search True name_pattern ''Name: B\<newline>Distance: 2\<newline>Type: middle school'') = Inr ''B''"
  "group1 (re_search True distance_pattern ''Name: B\<newline>Distance: 2\<newline>Type: middle school'') = Inr ''2''"
  "re_search True rating_pattern ''Name: B\<newline>Distance: 2\<newline>Type: middle school'' = None"
  "group1 (re_search True type_pattern ''Name: B\<newline>Distance: 2\<newline>Type: middle school'') = Inr ''middle school''"
  by (simp_all add: search_eval name_pattern_def distance_pattern_def rating_pattern_def
      type_pattern_def decimal_group_def school_types_def del: search_from.simps(2))


lemma example_entry_alone: "school_entries ''Name: A\<newline>Distance: 1\<newline>Rating: 9\<newline>Type: high school'' = [''Name: A\<newline>Distance: 1\<newline>Rating: 9\<newline>Type: high school'']"
  by (simp add: school_entries_def py_strip_def is_space_def)

lemma example_entries3: "school_entries ''Name: A\<newline>Distance: 1\<newline>Rating: 9\<newline>Type: high school\<newline>\<newline>Name: B\<newline>Distance: 2\<newline>Type: middle school\<newline>\<newline>Name: A\<newline>Distance: 1\<newline>Rating: 9\<newline>Type: high school'' = [''Name: A\<newline>Distance: 1\<newline>Rating: 9\<newline>Type: high school'', ''Name: B\<newline>Distance: 2\<newline>Type: middle school'', ''Name: A\<newline>Distance: 1\<newline>Rating: 9\<newline>Type: high school'']"
  by (simp add: school_entries_def py_strip_def is_space_def)

lemma example_entries4: "school_entries ''Name: A\<newline>Distance: 1\<newline>Rating: 9\<newline>Type: high school\<newline>\<newline>Name: A\<newline>Distance: 1\<newline>Rating: 9\<newline>Type: high school\<newline>\<newline>Name: A\<newline>Distance: 1\<newline>Rating: 9\<newline>Type: high school\<newline>\<newline>Name: A\<newline>Distance: 1\<newline>Rating: 9\<newline>Type: high school'' = [''Name: A\<newline>Distance: 1\<newline>Rating: 9\<newline>Type: high school'', ''Name: A\<newline>Distance: 1\<newline>Rating: 9\<newline>Type: high school'', ''Name: A\<newline>Distance: 1\<newline>Rating: 9\<newline>Type: high school'', ''Name: A\<newline>Distance: 1\<newline>Rating: 9\<newline>Type: high school'']"
  by (simp add: school_entries_def py_strip_def is_space_def)

lemma unnamed_entry_searches:
  "group1 (re_search True name_pattern ''Name:\<newline>Distance: 2\<newline>Rating: 7\<newline>Type: middle school'') = Inr ''Distance: 2''"
  "group1 (re_search True distance_pattern ''Name:\<newline>Distance: 2\<newline>Rating: 7\<newline>Type: middle school'') = Inr ''2''"
  "group1 (re_search True rating_pattern ''Name:\<newline>Distance: 2\<newline>Rating: 7\<newline>Type: middle school'') = Inr ''7''"
  "group1 (re_search True type_pattern ''Name:\<newline>Distance: 2\<newline>Rating: 7\<newline>Type: middle school'') = Inr ''middle school''"
  by (simp_all add: search_eval name_pattern_def distance_pattern_def rating_pattern_def
      type_pattern_def decimal_group_def school_types_def del: search_from.simps(2))

lemma unnamed_entry_block:
  "entry_block ''Name:\<newline>Distance: 2\<newline>Rating: 7\<newline>Type: middle school'' = Inr [\<lparr>name = ''Distance: 2'', distance = 2, rating = Some 7, type = ''middle school''\<rparr>]"
proof -
  have f: "py_float ''2'' = Inr 2" "py_float ''7'' = Inr 7"
    by (simp_all add: py_float_def digits_val_def digit_val_def is_digit_def)
  have l: "py_lower ''middle school'' = ''middle school''" "py_strip ''Distance: 2'' = ''Distance: 2''"
    by (simp_all add: py_lower_def py_strip_def char_classes)
  show ?thesis
    unfolding entry_block_def Let_def
    using unnamed_entry_searches[THEN group1_Inr]
    by (simp add: unnamed_entry_searches bind_exn_def f l)
qed

lemma unnamed_entries3: "school_entries ''Name: A\<newline>Distance: 1\<newline>Rating: 9\<newline>Type: high school\<newline>\<newline>Name:\<newline>Distance: 2\<newline>Rating: 7\<newline>Type: middle school\<newline>\<newline>Name: A\<newline>Distance: 1\<newline>Rating: 9\<newline>Type: high school'' = [''Name: A\<newline>Distance: 1\<newline>Rating: 9\<newline>Type: high school'', ''Name:\<newline>Distance: 2\<newline>Rating: 7\<newline>Type: middle school'', ''Name: A\<newline>Distance: 1\<newline>Rating: 9\<newline>Type: high school'']"
  by (simp add: school_entries_def py_strip_def is_space_def)

lemma unrated_entry_block:
  "entry_block ''Name: B\<newline>Distance: 2\<newline>Type: middle school'' = Inr []"
  by (rule entry_block_lacking) (simp add: lacks_field_def unrated_entry_searches(3))

text \<open>
  Claim C4. Of three entries of which the second has no \<open>Rating\<close> line, the first and
  the third give the two Schools of the list. But when the second entry has the label
  \<open>Name:\<close> with nothing behind it on its line, the blanks of the pattern pass the line
  feed and the next line is taken for the name: the entry is not skipped, and three
  Schools are returned, the second with the name \<open>Distance: 2\<close>.
\<close>

theorem entry_without_name_kept:
  "parse_schools ''Name: A\<newline>Distance: 1\<newline>Rating: 9\<newline>Type: high school\<newline>\<newline>Name: B\<newline>Distance: 2\<newline>Type: middle school\<newline>\<newline>Name: A\<newline>Distance: 1\<newline>Rating: 9\<newline>Type: high school''
     = Inr [\<lparr>name = ''A'', distance = 1, rating = Some 9, type = ''high school''\<rparr>,
            \<lparr>name = ''A'', distance = 1, rating = Some 9, type = ''high school''\<rparr>]
   \<and> parse_schools ''Name: A\<newline>Distance: 1\<newline>Rating: 9\<newline>Type: high school\<newline>\<newline>Name:\<newline>Distance: 2\<newline>Rating: 7\<newline>Type: middle school\<newline>\<newline>Name: A\<newline>Distance: 1\<newline>Rating: 9\<newline>Type: high school''
     = Inr [\<lparr>name = ''A'', distance = 1, rating = Some 9, type = ''high school''\<rparr>,
            \<lparr>name = ''Distance: 2'', distance = 2, rating = Some 7, type = ''middle school''\<rparr>,
            \<lparr>name = ''A'', distance = 1, rating = Some 9, type = ''high school''\<rparr>]"
  by (simp add: parse_schools_def example_entries3 unnamed_entries3 example_entry_block
      unnamed_entry_block unrated_entry_block)



text \<open>An answer with four well-formed entries: four Schools are returned.\<close>

theorem four_entries_give_four_schools:
  "parse_schools ''Name: A\<newline>Distance: 1\<newline>Rating: 9\<newline>Type: high school\<newline>\<newline>Name: A\<newline>Distance: 1\<newline>Rating: 9\<newline>Type: high school\<newline>\<newline>Name: A\<newline>Distance: 1\<newline>Rating: 9\<newline>Type: high school\<newline>\<newline>Name: A\<newline>Distance: 1\<newline>Rating: 9\<newline>Type: high school'' = Inr [\<lparr>name = ''A'', distance = 1, rating = Some 9, type = ''high school''\<rparr>, \<lparr>name = ''A'', distance = 1, rating = Some 9, type = ''high school''\<rparr>, \<lparr>name = ''A'', distance = 1, rating = Some 9, type = ''high school''\<rparr>, \<lparr>name = ''A'', distance = 1, rating = Some 9, type = ''high school''\<rparr>]
   \<and> length [\<lparr>name = ''A'', distance = 1, rating = Some 9, type = ''high school''\<rparr>, \<lparr>name = ''A'', distance = 1, rating = Some 9, type = ''high school''\<rparr>, \<lparr>name = ''A'', distance = 1, rating = Some 9, type = ''high school''\<rparr>, \<lparr>name = ''A'', distance = 1, rating = Some 9, type = ''high school''\<rparr>] = 4"
  by (simp add: parse_schools_def example_entries4 example_entry_block)

theorem schools_follow_entries_witness:
  "\<exists>schools. parse_schools ''Name: A\<newline>Distance: 1\<newline>Rating: 9\<newline>Type: high school\<newline>\<newline>Name: A\<newline>Distance: 1\<newline>Rating: 9\<newline>Type: high school\<newline>\<newline>Name: A\<newline>Distance: 1\<newline>Rating: 9\<newline>Type: high school\<newline>\<newline>Name: A\<newline>Distance: 1\<newline>Rating: 9\<newline>Type: high school'' = Inr schools \<and> length schools \<le> 4"
proof -
  define body where "body = ''Name: A\<newline>Distance: 1\<newline>Rating: 9\<newline>Type: high school\<newline>\<newline>Name: A\<newline>Distance: 1\<newline>Rating: 9\<newline>Type: high school\<newline>\<newline>Name: A\<newline>Distance: 1\<newline>Rating: 9\<newline>Type: high school\<newline>\<newline>Name: A\<newline>Distance: 1\<newline>Rating: 9\<newline>Type: high school''"
  have "length (school_entries body) = 4" unfolding body_def by (simp add: example_entries4)
  with schools_follow_entries[of body]
  have "\<exists>schools. parse_schools body = Inr schools \<and> length schools \<le> 4"
    by (elim exE conjE) simp
  then show ?thesis unfolding body_def .
qed

section \<open>\<open>validate_street\<close>: what the pattern accepts\<close>

lemma in_step_rep:
  "(p', s') \<in> set (step_atom ic (Rep cls lo None) (p, s)) \<longleftrightarrow>
   (\<exists>w. p' = p @ w \<and> s = w @ s' \<and> list_all cls w \<and> lo \<le> length w)"
proof
  assume "(p', s') \<in> set (step_atom ic (Rep cls lo None) (p, s))"
  from step_rep_consumed[OF this] show "\<exists>w. p' = p @ w \<and> s = w @ s' \<and> list_all cls w \<and> lo \<le> length w"
    by auto
next
  assume "\<exists>w. p' = p @ w \<and> s = w @ s' \<and> list_all cls w \<and> lo \<le> length w"
  then obtain w where w: "p' = p @ w" "s = w @ s'" "list_all cls w" "lo \<le> length w" by blast
  from w(3) have "takeWhile cls (w @ s') = w @ takeWhile cls s'"
    by (simp add: list_all_iff)
  then have n: "length w \<le> length (takeWhile cls s)" using w(2) by simp
  have "(p @ take (length w) s, drop (length w) s) \<in>
        (\<lambda>k. (p @ take k s, drop k s)) ` set (rev [lo..<Suc (length (takeWhile cls s))])"
    using w(4) n by (intro imageI) auto
  then show "(p', s') \<in> set (step_atom ic (Rep cls lo None) (p, s))"
    using w(1,2) by (simp add: Let_def)
qed

lemma in_step_wordb:
  "(p', s') \<in> set (step_atom ic WordB (p, s)) \<longleftrightarrow>
   p' = p \<and> s' = s \<and> word_before p \<noteq> word_after s"
  by auto

lemma starts_with_False_iff: "starts_with False t s \<longleftrightarrow> (\<exists>r. s = t @ r)"
  by (induction False t s rule: starts_with.induct) auto

lemma in_step_lit:
  "(p', s') \<in> set (step_lit False t (p, s)) \<longleftrightarrow> p' = p @ t \<and> s = t @ s'"
proof (cases "starts_with False t s")
  case True
  then obtain r where "s = t @ r" by (auto simp: starts_with_False_iff)
  with True show ?thesis by (auto simp: step_lit_def)
next
  case False
  then have "s \<noteq> t @ s'" by (auto simp: starts_with_False_iff)
  with False show ?thesis by (simp add: step_lit_def)
qed

lemma in_step_alt:
  "(p', s') \<in> set (step_atom False (Alt alts) (p, s)) \<longleftrightarrow>
   (\<exists>t \<in> set alts. p' = p @ t \<and> s = t @ s')"
  by (simp add: in_step_lit)

lemma in_run_atom:
  "st' \<in> set (run ic (Atom a # is) ((p, s), c)) \<longleftrightarrow>
   (\<exists>p1 s1. (p1, s1) \<in> set (step_atom ic a (p, s)) \<and> st' \<in> set (run ic is ((p1, s1), c)))"
  by auto

lemma alpha_word: "is_alpha_az c \<Longrightarrow> is_word c"
  by (simp add: is_word_def)

lemma word_after_alpha: "w \<noteq> [] \<Longrightarrow> list_all is_alpha_az w \<Longrightarrow> word_after (w @ x)"
  by (cases w) (auto simp: word_after_def alpha_word)

lemma word_before_alpha: "w \<noteq> [] \<Longrightarrow> list_all is_alpha_az w \<Longrightarrow> word_before (p @ w)"
proof -
  assume w: "w \<noteq> []" "list_all is_alpha_az w"
  then obtain c cs where r: "rev w = c # cs" by (cases "rev w") auto
  then have "c \<in> set w" by (metis list.set_intros(1) set_rev)
  with w(2) have "is_word c" by (simp add: list_all_iff alpha_word)
  with r show ?thesis by (simp add: word_before_def)
qed

lemma street_types_alpha: "t \<in> set street_types \<Longrightarrow> t \<noteq> [] \<and> list_all is_alpha_az t"
  by (auto simp: street_types_def is_alpha_az_def is_lower_az_def)


lemma run_atomE:
  assumes "st' \<in> set (run ic (Atom a # is) ((p, s), c))"
  obtains p1 s1 where "(p1, s1) \<in> set (step_atom ic a (p, s))"
    and "st' \<in> set (run ic is ((p1, s1), c))"
  using assms by auto

lemma run_atomI:
  "(p1, s1) \<in> set (step_atom ic a (p, s)) \<Longrightarrow> st' \<in> set (run ic is ((p1, s1), c)) \<Longrightarrow>
   st' \<in> set (run ic (Atom a # is) ((p, s), c))"
  by auto

lemma street_match_shape:
  assumes "st \<in> set (run False street_pattern (([], l), None))"
  shows "street_shape l"
proof -
  from assms have m0: "st \<in> set (run False
      (Atom (Rep is_digit 1 None) # [Atom (Rep not_newline 0 None), Atom WordB, Atom (Rep is_alpha_az 1 None), Atom WordB, Atom (Rep not_newline 0 None), Atom (Alt street_types), Atom WordB, Atom (Rep not_newline 0 None)])
      (([], l), None))"
    by (simp add: street_pattern_def)
  from m0 obtain p1 s1 where
    e1: "(p1, s1) \<in> set (step_atom False (Rep is_digit 1 None) ([], l))" and
    m1: "st \<in> set (run False (Atom (Rep not_newline 0 None) # [Atom WordB, Atom (Rep is_alpha_az 1 None), Atom WordB, Atom (Rep not_newline 0 None), Atom (Alt street_types), Atom WordB, Atom (Rep not_newline 0 None)]) ((p1, s1), None))"
    by (rule run_atomE) simp
  from m1 obtain p2 s2 where
    e2: "(p2, s2) \<in> set (step_atom False (Rep not_newline 0 None) (p1, s1))" and
    m2: "st \<in> set (run False (Atom WordB # [Atom (Rep is_alpha_az 1 None), Atom WordB, Atom (Rep not_newline 0 None), Atom (Alt street_types), Atom WordB, Atom (Rep not_newline 0 None)]) ((p2, s2), None))"
    by (rule run_atomE) simp
  from m2 obtain p3 s3 where
    e3: "(p3, s3) \<in> set (step_atom False WordB (p2, s2))" and
    m3: "st \<in> set (run False (Atom (Rep is_alpha_az 1 None) # [Atom WordB, Atom (Rep not_newline 0 None), Atom (Alt street_types), Atom WordB, Atom (Rep not_newline 0 None)]) ((p3, s3), None))"
    by (rule run_atomE) simp
  from m3 obtain p4 s4 where
    e4: "(p4, s4) \<in> set (step_atom False (Rep is_alpha_az 1 None) (p3, s3))" and
    m4: "st \<in> set (run False (Atom WordB # [Atom (Rep not_newline 0 None), Atom (Alt street_types), Atom WordB, Atom (Rep not_newline 0 None)]) ((p4, s4), None))"
    by (rule run_atomE) simp
  from m4 obtain p5 s5 where
    e5: "(p5, s5) \<in> set (step_atom False WordB (p4, s4))" and
    m5: "st \<in> set (run False (Atom (Rep not_newline 0 None) # [Atom (Alt street_types), Atom WordB, Atom (Rep not_newline 0 None)]) ((p5, s5), None))"
    by (rule run_atomE) simp
  from m5 obtain p6 s6 where
    e6: "(p6, s6) \<in> set (step_atom False (Rep not_newline 0 None) (p5, s5))" and
    m6: "st \<in> set (run False (Atom (Alt street_types) # [Atom WordB, Atom (Rep not_newline 0 None)]) ((p6, s6), None))"
    by (rule run_atomE) simp
  from m6 obtain p7 s7 where
    e7: "(p7, s7) \<in> set (step_atom False (Alt street_types) (p6, s6))" and
    m7: "st \<in> set (run False (Atom WordB # [Atom (Rep not_newline 0 None)]) ((p7, s7), None))"
    by (rule run_atomE) simp
  from m7 obtain p8 s8 where
    e8: "(p8, s8) \<in> set (step_atom False WordB (p7, s7))" and
    m8: "st \<in> set (run False (Atom (Rep not_newline 0 None) # []) ((p8, s8), None))"
    by (rule run_atomE) simp
  from e1[unfolded in_step_rep] obtain ds where ds: "p1 = ds" "l = ds @ s1" "list_all is_digit ds" "1 \<le> length ds"
    by auto
  from e2[unfolded in_step_rep] obtain a where a: "p2 = p1 @ a" "s1 = a @ s2" "list_all not_newline a"
    by auto
  from e3[unfolded in_step_wordb] have b1: "p3 = p2" "s3 = s2" "word_before p2 \<noteq> word_after s2"
    by auto
  from e4[unfolded in_step_rep] obtain w where w: "p4 = p3 @ w" "s3 = w @ s4" "list_all is_alpha_az w" "1 \<le> length w"
    by auto
  from e5[unfolded in_step_wordb] have b2: "p5 = p4" "s5 = s4" "word_before p4 \<noteq> word_after s4"
    by auto
  from e6[unfolded in_step_rep] obtain b where b: "p6 = p5 @ b" "s5 = b @ s6" "list_all not_newline b"
    by auto
  from e7[unfolded in_step_alt] obtain t where t: "t \<in> set street_types" "p7 = p6 @ t" "s6 = t @ s7"
    by auto
  from e8[unfolded in_step_wordb] have b3: "word_before p7 \<noteq> word_after s7"
    by auto
  from w(4) have wne: "w \<noteq> []" by auto
  from ds(4) have dne: "ds \<noteq> []" by auto
  have l: "l = ds @ a @ w @ b @ t @ s7"
    using ds(2) a(2) b1(2) w(2) b2(2) b(2) t(3) by simp
  have s2: "s2 = w @ s4" using b1(2) w(2) by simp
  have p2: "p2 = ds @ a" using ds(1) a(1) by simp
  have "word_after s2" unfolding s2 by (rule word_after_alpha[OF wne w(3)])
  with b1(3) have "\<not> word_before p2" by simp
  then have c1: "\<not> word_before (ds @ a)" unfolding p2 .
  have p4: "p4 = (ds @ a) @ w" using w(1) b1(1) p2 by simp
  have s4: "s4 = b @ t @ s7" using b2(2) b(2) t(3) by simp
  have "word_before p4" unfolding p4 by (rule word_before_alpha[OF wne w(3)])
  with b2(3) have "\<not> word_after s4" by simp
  then have c2: "\<not> word_after (b @ t @ s7)" unfolding s4 .
  from street_types_alpha[OF t(1)] have ta: "t \<noteq> []" "list_all is_alpha_az t" by auto
  have "word_before p7" unfolding t(2) by (rule word_before_alpha[OF ta])
  with b3 have c3: "\<not> word_after s7" by simp
  show ?thesis
    unfolding street_shape_def
    using l dne ds(3) a(3) c1 wne w(3) b(3) c2 t(1) c3
    by (intro exI[of _ ds] exI[of _ a] exI[of _ w] exI[of _ b] exI[of _ t] exI[of _ s7]) simp
qed

lemma street_shape_match:
  assumes "street_shape l"
  shows "\<exists>st. st \<in> set (run False street_pattern (([], l), None))"
proof -
  from assms obtain ds a w b t r where
    l: "l = ds @ a @ w @ b @ t @ r" and
    ds: "ds \<noteq> []" "list_all is_digit ds" and
    a: "list_all not_newline a" "\<not> word_before (ds @ a)" and
    w: "w \<noteq> []" "list_all is_alpha_az w" and
    b: "list_all not_newline b" "\<not> word_after (b @ t @ r)" and
    t: "t \<in> set street_types" "\<not> word_after r"
    unfolding street_shape_def by blast
  let ?st = "((ds @ a @ w @ b @ t, r), None :: string option)"
  have ta: "t \<noteq> []" "list_all is_alpha_az t" using street_types_alpha[OF t(1)] by auto
  have m9: "?st \<in> set (run False [] ?st)" by simp
  have e9: "(ds @ a @ w @ b @ t, r) \<in>
      set (step_atom False (Rep not_newline 0 None) (ds @ a @ w @ b @ t, r))"
    unfolding in_step_rep by (rule exI[of _ "[]"]) simp
  have e8: "(ds @ a @ w @ b @ t, r) \<in> set (step_atom False WordB (ds @ a @ w @ b @ t, r))"
    unfolding in_step_wordb using word_before_alpha[OF ta, of "ds @ a @ w @ b"] t(2) by simp
  have e7: "(ds @ a @ w @ b @ t, r) \<in>
      set (step_atom False (Alt street_types) (ds @ a @ w @ b, t @ r))"
    unfolding in_step_alt using t(1) by (intro bexI[of _ t]) simp_all
  have e6: "(ds @ a @ w @ b, t @ r) \<in>
      set (step_atom False (Rep not_newline 0 None) (ds @ a @ w, b @ t @ r))"
    unfolding in_step_rep using b(1) by (intro exI[of _ b]) simp
  have e5: "(ds @ a @ w, b @ t @ r) \<in> set (step_atom False WordB (ds @ a @ w, b @ t @ r))"
    unfolding in_step_wordb using word_before_alpha[OF w, of "ds @ a"] b(2) by simp
  have e4: "(ds @ a @ w, b @ t @ r) \<in>
      set (step_atom False (Rep is_alpha_az 1 None) (ds @ a, w @ b @ t @ r))"
    unfolding in_step_rep using w by (intro exI[of _ w]) (cases w; simp)
  have e3: "(ds @ a, w @ b @ t @ r) \<in> set (step_atom False WordB (ds @ a, w @ b @ t @ r))"
    unfolding in_step_wordb using word_after_alpha[OF w, of "b @ t @ r"] a(2) by simp
  have e2: "(ds @ a, w @ b @ t @ r) \<in>
      set (step_atom False (Rep not_newline 0 None) (ds, a @ w @ b @ t @ r))"
    unfolding in_step_rep using a(1) by (intro exI[of _ a]) simp
  have e1: "(ds, a @ w @ b @ t @ r) \<in>
      set (step_atom False (Rep is_digit 1 None) ([], l))"
    unfolding in_step_rep using ds l by (intro exI[of _ ds]) (cases ds; simp)
  have "?st \<in> set (run False street_pattern (([], l), None))"
    unfolding street_pattern_def
    by (intro run_atomI[OF e1] run_atomI[OF e2] run_atomI[OF e3] run_atomI[OF e4]
        run_atomI[OF e5] run_atomI[OF e6] run_atomI[OF e7] run_atomI[OF e8] run_atomI[OF e9] m9)
  then show ?thesis by (rule exI)
qed

lemma re_match_iff: "re_match ic pat s \<noteq> None \<longleftrightarrow> (\<exists>st. st \<in> set (run ic pat (([], s), None)))"
  by (cases "run ic pat (([], s), None)") (auto simp: re_match_def first_match_def)

text \<open>The exact rule of the code.\<close>

lemma validate_street_exact:
  "validate_street s \<longleftrightarrow>
   5 \<le> length (py_strip s) \<and> length s \<le> 100 \<and> street_shape (py_lower s)"
proof -
  have "re_match False street_pattern (py_lower s) \<noteq> None \<longleftrightarrow> street_shape (py_lower s)"
    unfolding re_match_iff using street_match_shape street_shape_match by blast
  moreover have "s = [] \<Longrightarrow> length (py_strip s) < 5" by (simp add: py_strip_def)
  ultimately show ?thesis unfolding validate_street_def by auto
qed

lemma street_shape_whole_shape: "street_shape_whole l \<Longrightarrow> street_shape l"
  unfolding street_shape_whole_def street_shape_def by blast

lemma street_shape_parts: "street_shape l \<Longrightarrow> street_parts l"
  unfolding street_parts_def street_shape_def by blast

text \<open>
  Claim C3, as the code has it, for a text of characters below 256. When
  \<open>validate_street\<close> holds, the stripped text has at least five characters, the text
  at most a hundred, and the lower-cased text has digits at the start, further on a
  whole word of letters, and behind it, after at least one character that is not a
  word character, a street type that ends at a word boundary. Conversely
  \<open>validate_street\<close> holds whenever the two lengths are in range and the lower-cased
  text has these parts on one line with the street type standing as a whole word.
  Whatever follows the street type is free.
\<close>

theorem validate_street_between:
  "(validate_street s \<longrightarrow>
      5 \<le> length (py_strip s) \<and> length s \<le> 100 \<and> street_parts (py_lower s))
   \<and> (5 \<le> length (py_strip s) \<and> length s \<le> 100 \<and> street_shape_whole (py_lower s) \<longrightarrow>
      validate_street s)"
  using validate_street_exact[of s] street_shape_whole_shape[of "py_lower s"]
    street_shape_parts[of "py_lower s"] by auto

theorem validate_street_between_witness:
  "validate_street ''123 Main St'' \<and> street_parts ''123 main st''"
proof -
  have l: "py_lower ''123 Main St'' = ''123 main st''"
    by (simp add: py_lower_def char_classes)
  have "''123 main st'' = ''123'' @ '' '' @ ''main'' @ '' '' @ ''st'' @ []
        \<and> ''123'' \<noteq> [] \<and> list_all is_digit ''123''
        \<and> list_all not_newline '' '' \<and> \<not> word_before (''123'' @ '' '')
        \<and> ''main'' \<noteq> [] \<and> list_all is_alpha_az ''main''
        \<and> list_all not_newline '' '' \<and> \<not> word_after ('' '' @ ''st'' @ [])
        \<and> \<not> word_before (''123'' @ '' '' @ ''main'' @ '' '')
        \<and> ''st'' \<in> set street_types \<and> \<not> word_after []"
    by (simp add: word_before_def word_after_def street_types_def char_classes)
  then have "street_shape_whole ''123 main st''"
    unfolding street_shape_whole_def
    by (intro exI[of _ "''123''"] exI[of _ "'' ''"] exI[of _ "''main''"] exI[of _ "''st''"]
        exI[of _ "[]"])
  moreover have "5 \<le> length (py_strip ''123 Main St'')" "length ''123 Main St'' \<le> 100"
    by (simp_all add: py_strip_def char_classes)
  ultimately have v: "validate_street ''123 Main St''"
    using validate_street_between[of "''123 Main St''", THEN conjunct2] l by simp
  with validate_street_between[of "''123 Main St''", THEN conjunct1] l
  show ?thesis by simp
qed

text \<open>
  A text on which the pattern and the wording of the specification part: \<open>123 street\<close>
  has no word between the number and the street type and is refused.
\<close>

theorem street_rule_differs:
  "\<not> validate_street ''123 street'' \<and> specified_validate_street ''123 street''"
proof -
  have c1: "\<not> validate_street ''123 street''" by code_simp
  have d1: "specified_validate_street ''123 street''"
    by (simp add: specified_validate_street_def py_strip_def py_lower_def street_types_def
        word_before_def word_after_def char_classes)
  from c1 d1 show ?thesis by (intro conjI)
qed

text \<open>
  Three more texts. A street type that only ends a word is accepted: the pattern has no
  word boundary before the street type. A line feed between the number and the street
  type is not passed by \<open>.\<close>, and the text is refused. A letter of the Latin-1 block is
  a word character, so that \<open>Pe\<close> and \<open>a\<close> around it are no whole words of letters.
\<close>

lemma street_examples:
  "validate_street ''123 main fast'' \<and> \<not> specified_validate_street ''123 main fast''"
  "\<not> validate_street ''123\<newline>Main St'' \<and> specified_validate_street ''123\<newline>Main St''"
  "\<not> validate_street [CHR ''1'', CHR ''2'', CHR ''3'', CHR '' '', CHR ''P'', CHR ''e'', CHR 0xF1,
     CHR ''a'', CHR '' '', CHR ''S'', CHR ''t'']"
proof -
  have c2: "validate_street ''123 main fast''" by code_simp
  have d2: "\<not> specified_validate_street ''123 main fast''"
    by (simp add: specified_validate_street_def py_strip_def py_lower_def street_types_def
        word_before_def word_after_def char_classes)
  from c2 d2
  show "validate_street ''123 main fast'' \<and> \<not> specified_validate_street ''123 main fast''"
    by (intro conjI)
  have c3: "\<not> validate_street ''123\<newline>Main St''" by code_simp
  have d3: "specified_validate_street ''123\<newline>Main St''"
    by (simp add: specified_validate_street_def py_strip_def py_lower_def street_types_def
        word_before_def word_after_def char_classes)
  from c3 d3
  show "\<not> validate_street ''123\<newline>Main St'' \<and> specified_validate_street ''123\<newline>Main St''"
    by (intro conjI)
  show "\<not> validate_street [CHR ''1'', CHR ''2'', CHR ''3'', CHR '' '', CHR ''P'', CHR ''e'', CHR 0xF1,
     CHR ''a'', CHR '' '', CHR ''S'', CHR ''t'']"
    by code_simp
qed

end
